theory Spec2Isabelle
  imports Main "HOL-Library.AList"
begin

section \<open>JavaScript values\<close>

text \<open>
  The bridge handles loosely typed data: the invocation event, the parsed response body
  and the header values are all \<^verbatim>\<open>any\<close> in the source. They are modelled by one
  datatype of JavaScript values. Numbers are the integers and NaN (fractions are not
  modelled); an object is the list of its own properties in property order. Strings are
  lists of characters, one \<^typ>\<open>char\<close> per code unit below 256.
\<close>

datatype jsnum = Num int | NaN

datatype jsval =
    JUndefined
  | JNull
  | JBool bool
  | JNumber jsnum
  | JString string
  | JArray "jsval list"
  | JObject "(string \<times> jsval) list"

datatype jstype = TUndefined | TObject | TBoolean | TNumber | TString

text \<open>The \<^verbatim>\<open>typeof\<close> operator: \<^verbatim>\<open>typeof null\<close> and \<^verbatim>\<open>typeof []\<close> are both \<^verbatim>\<open>'object'\<close>.\<close>

fun typeof :: "jsval \<Rightarrow> jstype" where
  "typeof JUndefined = TUndefined"
| "typeof JNull = TObject"
| "typeof (JBool _) = TBoolean"
| "typeof (JNumber _) = TNumber"
| "typeof (JString _) = TString"
| "typeof (JArray _) = TObject"
| "typeof (JObject _) = TObject"

text \<open>Truthiness (ToBoolean): undefined, null, false, 0, NaN and the empty string are falsy.\<close>

fun truthy :: "jsval \<Rightarrow> bool" where
  "truthy JUndefined = False"
| "truthy JNull = False"
| "truthy (JBool b) = b"
| "truthy (JNumber (Num n)) = (n \<noteq> 0)"
| "truthy (JNumber NaN) = False"
| "truthy (JString s) = (s \<noteq> [])"
| "truthy (JArray _) = True"
| "truthy (JObject _) = True"

datatype error = TypeError | RangeError | Error

section \<open>Session cookie, session and memory store (session.ts)\<close>

text \<open>
  A \<^verbatim>\<open>Date\<close> holds a time value in milliseconds or is invalid (time value NaN).
  \<^verbatim>\<open>new Date(v)\<close> clips: a value beyond 8.64e15 ms in magnitude gives an invalid date.
\<close>

datatype js_date = DateMs int | InvalidDate

definition new_Date :: "int \<Rightarrow> js_date" where
  "new_Date v = (if \<bar>v\<bar> \<le> 8640000000000000 then DateMs v else InvalidDate)"

text \<open>\<^verbatim>\<open>date.getTime()\<close> / \<^verbatim>\<open>date.valueOf()\<close>.\<close>

fun getTime :: "js_date \<Rightarrow> jsnum" where
  "getTime (DateMs t) = Num t"
| "getTime InvalidDate = NaN"

text \<open>\<^verbatim>\<open>a <= b\<close> and \<^verbatim>\<open>a - b\<close> on numbers, \<open>b\<close> a reading of the clock; NaN compares false.\<close>

fun num_le :: "jsnum \<Rightarrow> int \<Rightarrow> bool" where
  "num_le (Num a) b = (a \<le> b)"
| "num_le NaN b = False"

fun num_minus :: "jsnum \<Rightarrow> int \<Rightarrow> jsnum" where
  "num_minus (Num a) b = Num (a - b)"
| "num_minus NaN b = NaN"

text \<open>Truthiness of a \<^verbatim>\<open>number | undefined\<close>.\<close>

fun num_truthy :: "jsnum option \<Rightarrow> bool" where
  "num_truthy None = False"
| "num_truthy (Some (Num n)) = (n \<noteq> 0)"
| "num_truthy (Some NaN) = False"

datatype priority = Low | Medium | High

datatype same_site = SameSiteBool bool | Lax | Strict | NoneSite

text \<open>
  Class \<^verbatim>\<open>Cookie\<close>. The private fields \<^verbatim>\<open>_maxAge\<close> (the originally configured
  duration) and \<^verbatim>\<open>_expires\<close> are \<open>p_maxAge\<close> and \<open>p_expires\<close>.
\<close>

record cookie =
  path :: string
  httpOnly :: bool
  p_maxAge :: "jsnum option"
  p_expires :: "js_date option"
  secure :: "bool option"
  partitioned :: "bool option"
  priority :: "priority option"
  domain :: "string option"
  sameSite :: "same_site option"

definition getOriMaxAge :: "cookie \<Rightarrow> jsnum option" where
  "getOriMaxAge c = p_maxAge c"

definition setOriMaxAge :: "jsnum \<Rightarrow> cookie \<Rightarrow> cookie" where
  "setOriMaxAge val c = c\<lparr>p_maxAge := Some val\<rparr>"

text \<open>\<^verbatim>\<open>get expires()\<close>.\<close>

definition get_expires :: "cookie \<Rightarrow> js_date option" where
  "get_expires c = p_expires c"

text \<open>
  \<^verbatim>\<open>get maxAge()\<close>: the live countdown, \<^verbatim>\<open>expires.valueOf() - Date.now()\<close>, or undefined
  when no expiry is set. The argument \<open>now\<close> is the value \<^verbatim>\<open>Date.now()\<close> returns in this
  call.
\<close>

definition get_maxAge :: "int \<Rightarrow> cookie \<Rightarrow> jsnum option" where
  "get_maxAge now c =
     (case get_expires c of
        Some d \<Rightarrow> Some (num_minus (getTime d) now)
      | None \<Rightarrow> None)"

text \<open>
  \<^verbatim>\<open>set expires(date)\<close>: stores the date, then reads the live \<^verbatim>\<open>maxAge\<close> twice: once
  for the test and, if that is truthy, once more for the value it stores as the
  configured duration. Each read calls \<^verbatim>\<open>Date.now()\<close>; \<open>t2\<close> and \<open>t3\<close> are those two
  clock readings.
\<close>

definition set_expires :: "int \<Rightarrow> int \<Rightarrow> js_date \<Rightarrow> cookie \<Rightarrow> cookie" where
  "set_expires t2 t3 date c =
     (let c1 = c\<lparr>p_expires := Some date\<rparr> in
      if num_truthy (get_maxAge t2 c1)
      then (case get_maxAge t3 c1 of Some v \<Rightarrow> setOriMaxAge v c1 | None \<Rightarrow> c1)
      else c1)"

text \<open>
  \<^verbatim>\<open>set maxAge(ms)\<close>: nothing for a falsy \<open>ms\<close>; otherwise
  \<^verbatim>\<open>this.expires = new Date(Date.now() + ms)\<close>, where \<open>t1\<close> is this reading of the clock
  and \<open>t2\<close>, \<open>t3\<close> are the readings inside the \<^verbatim>\<open>expires\<close> setter.
\<close>

fun set_maxAge :: "int \<Rightarrow> int \<Rightarrow> int \<Rightarrow> jsnum option \<Rightarrow> cookie \<Rightarrow> cookie" where
  "set_maxAge t1 t2 t3 (Some (Num ms)) c =
     (if ms = 0 then c else set_expires t2 t3 (new_Date (t1 + ms)) c)"
| "set_maxAge t1 t2 t3 (Some NaN) c = c"
| "set_maxAge t1 t2 t3 None c = c"

text \<open>
  \<^verbatim>\<open>CookieOptions\<close>, the argument of the constructor; every option may be missing.
\<close>

record cookie_options =
  o_path :: "string option"
  o_httpOnly :: "bool option"
  o_maxAge :: "jsnum option"
  o_expires :: "js_date option"
  o_secure :: "bool option"
  o_partitioned :: "bool option"
  o_priority :: "priority option"
  o_domain :: "string option"
  o_sameSite :: "same_site option"

text \<open>
  \<^verbatim>\<open>new Cookie(options)\<close>: the plain options are copied over the defaults; a truthy
  \<^verbatim>\<open>maxAge\<close> goes through the setter and is then stored again as the configured duration
  (\<^verbatim>\<open>this.maxAge = _maxAge; this.setOriMaxAge(_maxAge)\<close>); an \<^verbatim>\<open>expires\<close> goes through its
  setter. \<open>t1\<close> to \<open>t5\<close> are the clock readings of the two setters.
\<close>

definition new_Cookie :: "int \<Rightarrow> int \<Rightarrow> int \<Rightarrow> int \<Rightarrow> int \<Rightarrow> cookie_options \<Rightarrow> cookie" where
  "new_Cookie t1 t2 t3 t4 t5 opts =
     (let c0 = \<lparr> path = (case o_path opts of None \<Rightarrow> ''/'' | Some p \<Rightarrow> p),
                  httpOnly = (case o_httpOnly opts of None \<Rightarrow> True | Some h \<Rightarrow> h),
                  p_maxAge = None, p_expires = None,
                  secure = o_secure opts, partitioned = o_partitioned opts,
                  priority = o_priority opts, domain = o_domain opts,
                  sameSite = o_sameSite opts \<rparr>;
          c1 = (case o_maxAge opts of
                  Some m \<Rightarrow>
                    (if num_truthy (Some m)
                     then setOriMaxAge m (set_maxAge t1 t2 t3 (Some m) c0)
                     else c0)
                | None \<Rightarrow> c0)
      in case o_expires opts of
           Some d \<Rightarrow> set_expires t4 t5 d c1
         | None \<Rightarrow> c1)"

text \<open>
  Class \<^verbatim>\<open>Session\<close>: the id and the optional cookie; whatever else a session carries is
  the extension part of the record.
\<close>

record session =
  sid :: string
  cookie :: "cookie option"

text \<open>\<^verbatim>\<open>Session.touch()\<close>.\<close>

definition Session_touch :: "int \<Rightarrow> int \<Rightarrow> int \<Rightarrow> 'a session_scheme \<Rightarrow> 'a session_scheme" where
  "Session_touch t1 t2 t3 s =
     (case cookie s of
        Some c \<Rightarrow> s\<lparr>cookie := Some (set_maxAge t1 t2 t3 (getOriMaxAge c) c)\<rparr>
      | None \<Rightarrow> s)"

text \<open>Class \<^verbatim>\<open>MemoryStore\<close>: the map \<^verbatim>\<open>sessions\<close> from session id to session.\<close>

record 'a memory_store =
  sessions :: "string \<rightharpoonup> 'a session_scheme"

text \<open>
  \<^verbatim>\<open>getSession\<close>: returns the session (or undefined, \<open>None\<close>) and the store as it leaves
  it. \<open>now\<close> is the reading of \<^verbatim>\<open>Date.now()\<close>.
\<close>

definition getSession :: "int \<Rightarrow> 'a memory_store \<Rightarrow> string \<Rightarrow> 'a session_scheme option \<times> 'a memory_store" where
  "getSession now st i =
     (case sessions st i of
        None \<Rightarrow> (None, st)
      | Some s \<Rightarrow>
          (case cookie s of
             Some c \<Rightarrow>
               (case get_expires c of
                  Some e \<Rightarrow>
                    if num_le (getTime e) now
                    then (None, st\<lparr>sessions := (sessions st)(i := None)\<rparr>)
                    else (Some s, st)
                | None \<Rightarrow> (Some s, st))
           | None \<Rightarrow> (Some s, st)))"

text \<open>
  \<^verbatim>\<open>MemoryStore.get(id, callback)\<close>: \<^verbatim>\<open>getSession\<close> runs at once, as an argument of
  \<^verbatim>\<open>setImmediate\<close>; the callback is scheduled with \<^verbatim>\<open>(null, session)\<close>. Without a callback
  \<^verbatim>\<open>setImmediate\<close> throws, after the store has been read.
\<close>

datatype 'a delivery = Scheduled nat "'a option"

definition MemoryStore_get ::
  "int \<Rightarrow> 'a memory_store \<Rightarrow> string \<Rightarrow> nat option
     \<Rightarrow> (error + 'a session_scheme delivery) \<times> 'a memory_store" where
  "MemoryStore_get now st i callback =
     (let (r, st') = getSession now st i in
      case callback of
        None \<Rightarrow> (Inl TypeError, st')
      | Some k \<Rightarrow> (Inr (Scheduled k r), st'))"

section \<open>String operations\<close>

text \<open>
  \<^verbatim>\<open>toLowerCase\<close> and \<^verbatim>\<open>toUpperCase\<close> are modelled on the ASCII letters; every other
  character is left as it is.
\<close>

definition lower_char :: "char \<Rightarrow> char" where
  "lower_char c =
     (case map_of (zip ''ABCDEFGHIJKLMNOPQRSTUVWXYZ'' ''abcdefghijklmnopqrstuvwxyz'') c of
        Some d \<Rightarrow> d
      | None \<Rightarrow> c)"

definition upper_char :: "char \<Rightarrow> char" where
  "upper_char c =
     (case map_of (zip ''abcdefghijklmnopqrstuvwxyz'' ''ABCDEFGHIJKLMNOPQRSTUVWXYZ'') c of
        Some d \<Rightarrow> d
      | None \<Rightarrow> c)"

definition toLowerCase :: "string \<Rightarrow> string" where
  "toLowerCase s = map lower_char s"

definition toUpperCase :: "string \<Rightarrow> string" where
  "toUpperCase s = map upper_char s"

text \<open>White space removed by \<^verbatim>\<open>trim\<close>: tab, LF, VT, FF, CR, space and the no-break space.\<close>

definition is_ws :: "char \<Rightarrow> bool" where
  "is_ws c = (c \<in> set [CHR 0x09, CHR 0x0A, CHR 0x0B, CHR 0x0C, CHR 0x0D, CHR 0x20, CHR 0xA0])"

definition trim :: "string \<Rightarrow> string" where
  "trim s = rev (dropWhile is_ws (rev (dropWhile is_ws s)))"

text \<open>\<^verbatim>\<open>s.indexOf(c)\<close> for a one-character needle: the first position, or -1.\<close>

fun indexOf :: "string \<Rightarrow> char \<Rightarrow> int" where
  "indexOf [] c = -1"
| "indexOf (x # xs) c =
     (if x = c then 0 else (let i = indexOf xs c in if i = -1 then -1 else i + 1))"

text \<open>\<^verbatim>\<open>s.substr(0, n)\<close> for \<open>n \<ge> 0\<close>.\<close>

definition substr0 :: "string \<Rightarrow> int \<Rightarrow> string" where
  "substr0 s n = take (nat n) s"

text \<open>Decimal digits of a number, as \<^verbatim>\<open>String(n)\<close> prints a non-negative integer.\<close>

function decimal :: "nat \<Rightarrow> string" where
  "decimal n =
     (if n < 10 then [''0123456789'' ! n] else decimal (n div 10) @ [''0123456789'' ! (n mod 10)])"
  by pat_completeness auto
termination
  by (relation "measure (\<lambda>n. n)") auto

declare decimal.simps [simp del]

text \<open>
  The decimal digits of an integer. This is how \<^verbatim>\<open>Number.prototype.toString\<close> prints a
  safe integer (one of magnitude below \<open>2^53\<close>); the examples print their numbers with it.
\<close>

definition int_string :: "int \<Rightarrow> string" where
  "int_string i = (if i < 0 then CHR ''-'' # decimal (nat (- i)) else decimal (nat i))"

section \<open>Secure-cookie determination and the session middleware (session.ts)\<close>

text \<open>
  Interface \<^verbatim>\<open>Request\<close> of session.ts. The header record maps names to values of type
  \<^verbatim>\<open>any\<close>.
\<close>

record 'a request =
  r_sessionId :: string
  r_session :: "'a session_scheme option"
  r_secure :: "bool option"
  r_header :: "(string \<rightharpoonup> jsval) option"
  r_originalUrl :: string

text \<open>\<^verbatim>\<open>req.header?.["x-forworded-proto"]\<close>, the header as the source spells it.\<close>

definition proto_header :: "'a request \<Rightarrow> jsval" where
  "proto_header req =
     (case r_header req of
        None \<Rightarrow> JUndefined
      | Some h \<Rightarrow> (case h ''x-forworded-proto'' of None \<Rightarrow> JUndefined | Some w \<Rightarrow> w))"

text \<open>
  \<^verbatim>\<open>isSecure(req, trustProxy)\<close>. \<open>trustProxy\<close> is \<^verbatim>\<open>boolean | undefined\<close>. A header value
  that is truthy and not a string has no \<^verbatim>\<open>toLowerCase\<close>: the call throws a TypeError.
\<close>

definition isSecure :: "'a request \<Rightarrow> bool option \<Rightarrow> error + bool" where
  "isSecure req trustProxy =
     (if trustProxy = Some False then Inr False
      else if trustProxy \<noteq> Some True then Inr (r_secure req = Some True)
      else
        (let v = proto_header req;
             header = (if truthy v then v else JString [])
         in case header of
              JString h \<Rightarrow>
                (let index = indexOf h (CHR '','');
                     proto = (if index \<noteq> -1 then trim (toLowerCase (substr0 h index))
                              else trim (toLowerCase h))
                 in Inr (proto = ''https''))
            | _ \<Rightarrow> Inl TypeError))"

text \<open>
  The claim's wording of the same: the first comma-separated entry of the header.
\<close>

definition first_entry :: "string \<Rightarrow> string" where
  "first_entry h = takeWhile (\<lambda>c. c \<noteq> CHR '','') h"

text \<open>
  The flag \<^verbatim>\<open>storeReady\<close> of \<^verbatim>\<open>session()\<close>: true at construction, driven by the store's
  \<^verbatim>\<open>connect\<close> and \<^verbatim>\<open>disconnect\<close> events.
\<close>

datatype store_event = Connect | Disconnect

fun on_event :: "bool \<Rightarrow> store_event \<Rightarrow> bool" where
  "on_event ready Disconnect = False"
| "on_event ready Connect = True"

definition storeReady :: "store_event list \<Rightarrow> bool" where
  "storeReady evs = foldl on_event True evs"

text \<open>
  The middleware function that \<^verbatim>\<open>session()\<close> returns. Its effects are the calls it
  makes, in order: a debug line, and the call of \<^verbatim>\<open>next\<close>. \<open>next\<close> tells whether the
  optional continuation was supplied (\<^verbatim>\<open>next?.()\<close>).
\<close>

datatype mw_effect = Console_debug string | Call_next

definition session_middleware :: "bool \<Rightarrow> 'a request \<Rightarrow> bool \<Rightarrow> mw_effect list" where
  "session_middleware ready req next =
     (if r_session req \<noteq> None then (if next then [Call_next] else [])
      else if \<not> ready then Console_debug ''store is disconnected'' # (if next then [Call_next] else [])
      else [])"

section \<open>JSON serialization\<close>

text \<open>
  \<^verbatim>\<open>JSON.stringify\<close> on the values of the model. \<open>None\<close> is the result \<^verbatim>\<open>undefined\<close>.
  A property whose value is undefined is left out of an object; an undefined array
  element, like NaN, prints as \<^verbatim>\<open>null\<close>. How a number prints is the language's
  \<^verbatim>\<open>Number.prototype.toString\<close>, which is not modelled: it is the parameter \<open>num_text\<close>.
\<close>

definition hex_digit :: "nat \<Rightarrow> char" where
  "hex_digit n = ''0123456789abcdef'' ! n"

definition quote_char :: "char \<Rightarrow> string" where
  "quote_char c =
     (if c = CHR 0x22 then [CHR 0x5C, CHR 0x22]
      else if c = CHR 0x5C then [CHR 0x5C, CHR 0x5C]
      else if c = CHR 0x08 then [CHR 0x5C, CHR ''b'']
      else if c = CHR 0x0C then [CHR 0x5C, CHR ''f'']
      else if c = CHR 0x0A then [CHR 0x5C, CHR ''n'']
      else if c = CHR 0x0D then [CHR 0x5C, CHR ''r'']
      else if c = CHR 0x09 then [CHR 0x5C, CHR ''t'']
      else if (of_char c :: nat) < 32
      then [CHR 0x5C, CHR ''u'', CHR ''0'', CHR ''0'',
            hex_digit ((of_char c :: nat) div 16), hex_digit ((of_char c :: nat) mod 16)]
      else [c])"

definition quote :: "string \<Rightarrow> string" where
  "quote s = [CHR 0x22] @ concat (map quote_char s) @ [CHR 0x22]"

fun join :: "string \<Rightarrow> string list \<Rightarrow> string" where
  "join sep [] = []"
| "join sep [x] = x"
| "join sep (x # y # ys) = x @ sep @ join sep (y # ys)"

fun stringify :: "(int \<Rightarrow> string) \<Rightarrow> jsval \<Rightarrow> string option"
  and stringify_elems :: "(int \<Rightarrow> string) \<Rightarrow> jsval list \<Rightarrow> string list"
  and stringify_props :: "(int \<Rightarrow> string) \<Rightarrow> (string \<times> jsval) list \<Rightarrow> string list" where
  "stringify num_text JUndefined = None"
| "stringify num_text JNull = Some ''null''"
| "stringify num_text (JBool b) = Some (if b then ''true'' else ''false'')"
| "stringify num_text (JNumber (Num n)) = Some (num_text n)"
| "stringify num_text (JNumber NaN) = Some ''null''"
| "stringify num_text (JString s) = Some (quote s)"
| "stringify num_text (JArray xs) = Some (''['' @ join '','' (stringify_elems num_text xs) @ '']'')"
| "stringify num_text (JObject ps) = Some (''{'' @ join '','' (stringify_props num_text ps) @ ''}'')"
| "stringify_elems num_text [] = []"
| "stringify_elems num_text (x # xs) =
     (case stringify num_text x of None \<Rightarrow> ''null'' | Some s \<Rightarrow> s) # stringify_elems num_text xs"
| "stringify_props num_text [] = []"
| "stringify_props num_text (p # ps) =
     (case stringify num_text (snd p) of
        None \<Rightarrow> stringify_props num_text ps
      | Some s \<Rightarrow> (quote (fst p) @ '':'' @ s) # stringify_props num_text ps)"

section \<open>Event normalizer\<close>

text \<open>
  Property access \<^verbatim>\<open>param.name\<close> for the six names the normalizer reads (none of them
  is a property of a primitive or of an array): reading a property of undefined or null
  throws a TypeError, an object gives its property or undefined, any other value gives
  undefined.
\<close>

fun get_prop :: "jsval \<Rightarrow> string \<Rightarrow> error + jsval" where
  "get_prop JUndefined k = Inl TypeError"
| "get_prop JNull k = Inl TypeError"
| "get_prop (JObject ps) k = Inr (case map_of ps k of None \<Rightarrow> JUndefined | Some v \<Rightarrow> v)"
| "get_prop v k = Inr JUndefined"

text \<open>
  Interface \<^verbatim>\<open>ExpressParams\<close> as \<^verbatim>\<open>getExpressParams\<close> fills it. The field \<^verbatim>\<open>body\<close> is
  cast to \<^verbatim>\<open>string\<close> in the source without a conversion, so the record holds the value
  itself.
\<close>

record express_params =
  ep_path :: string
  ep_httpMethod :: string
  ep_headers :: jsval
  ep_queryStringParameters :: jsval
  ep_body :: jsval
  ep_isBase64Encoded :: bool

text \<open>\<^verbatim>\<open>if (!x || typeof x !== 'string') x = d\<close>, for the path and the method.\<close>

definition string_or :: "jsval \<Rightarrow> string \<Rightarrow> string" where
  "string_or v d = (case v of JString s \<Rightarrow> (if s = [] then d else s) | _ \<Rightarrow> d)"

text \<open>\<^verbatim>\<open>if (!x || typeof x !== 'object') x = {}\<close>, for the headers and the query.\<close>

definition object_or_empty :: "jsval \<Rightarrow> jsval" where
  "object_or_empty v = (if \<not> truthy v \<or> typeof v \<noteq> TObject then JObject [] else v)"

text \<open>
  The body: \<^verbatim>\<open>if (!body || (typeof body !== 'string' && typeof body !== 'object'))
  body = typeof body === 'object' ? JSON.stringify(body) : ''\<close>.
\<close>

definition normalize_body :: "(int \<Rightarrow> string) \<Rightarrow> jsval \<Rightarrow> jsval" where
  "normalize_body num_text v =
     (if \<not> truthy v \<or> (typeof v \<noteq> TString \<and> typeof v \<noteq> TObject)
      then (if typeof v = TObject
            then (case stringify num_text v of Some s \<Rightarrow> JString s | None \<Rightarrow> JUndefined)
            else JString [])
      else v)"

definition getExpressParams :: "(int \<Rightarrow> string) \<Rightarrow> jsval \<Rightarrow> error + express_params" where
  "getExpressParams num_text param =
     (case get_prop param ''path'' of Inl e \<Rightarrow> Inl e | Inr p \<Rightarrow>
     (case get_prop param ''httpMethod'' of Inl e \<Rightarrow> Inl e | Inr m \<Rightarrow>
     (case get_prop param ''headers'' of Inl e \<Rightarrow> Inl e | Inr h \<Rightarrow>
     (case get_prop param ''queryStringParameters'' of Inl e \<Rightarrow> Inl e | Inr q \<Rightarrow>
     (case get_prop param ''body'' of Inl e \<Rightarrow> Inl e | Inr b \<Rightarrow>
     (case get_prop param ''isBase64Encoded'' of Inl e \<Rightarrow> Inl e | Inr f \<Rightarrow>
        Inr \<lparr> ep_path = string_or p ''/'',
              ep_httpMethod = toUpperCase (string_or m ''GET''),
              ep_headers = object_or_empty h,
              ep_queryStringParameters = object_or_empty q,
              ep_body = normalize_body num_text b,
              ep_isBase64Encoded = truthy f \<rparr>))))))"

section \<open>Response capture shim (expressWXServer)\<close>

text \<open>
  A chunk handed to \<^verbatim>\<open>write\<close> or \<^verbatim>\<open>end\<close> is a string, a Buffer (its bytes), null or
  undefined. The first argument of \<^verbatim>\<open>end\<close> may also be a function, the second argument
  of either an encoding or a function. Functions are named by numbers.
\<close>

datatype chunk = CUndefined | CNull | CString string | CBuffer "nat list"

datatype arg1 = AChunk chunk | AFunction nat

datatype arg2 = EUndefined | EEncoding string | ECallback nat

text \<open>The Outcome. Its body is whatever value the code passes to \<^verbatim>\<open>resolve\<close>.\<close>

record outcome =
  statusCode :: int
  body :: jsval

text \<open>
  The promise that \<^verbatim>\<open>expressWXServer\<close> returns. \<^verbatim>\<open>resolve\<close> is the language's: it settles
  a pending promise and does nothing to a settled one.
\<close>

datatype 'a promise = Pending | Fulfilled 'a

fun resolve :: "'a \<Rightarrow> 'a promise \<Rightarrow> 'a promise" where
  "resolve v Pending = Fulfilled v"
| "resolve v (Fulfilled w) = Fulfilled w"

text \<open>
  The calls forwarded to the response's own \<^verbatim>\<open>_write\<close> and \<^verbatim>\<open>_end\<close>, with the encoding
  and the callback they were given.
\<close>

datatype forwarded_call =
    Fwd_write chunk "string option" "nat option"
  | Fwd_end chunk "string option" "nat option"

text \<open>
  What the shim takes from the language and from the response it wraps:
  \<^item> \<open>JSON_parse\<close>: \<^verbatim>\<open>JSON.parse\<close>, \<open>None\<close> when it throws;
  \<^item> \<open>Number_text\<close>: \<^verbatim>\<open>Number.prototype.toString\<close> on the integers;
  \<^item> \<open>utf8_text\<close>: \<^verbatim>\<open>toString('utf8')\<close> on the bytes of a Buffer;
  \<^item> \<open>node_write\<close> and \<open>node_end\<close>: the response's own \<^verbatim>\<open>_write\<close> and \<^verbatim>\<open>_end\<close>. They
    see the status code, the chunk and the encoding, keep a state \<open>'n\<close> of their own
    (headers flushed, response finished, ...) and may throw: \<open>Some e\<close> is the throw.
\<close>

record 'n platform =
  JSON_parse :: "string \<Rightarrow> jsval option"
  Number_text :: "int \<Rightarrow> string"
  utf8_text :: "nat list \<Rightarrow> string"
  node_write :: "int \<Rightarrow> chunk \<Rightarrow> string option \<Rightarrow> 'n \<Rightarrow> error option \<times> 'n"
  node_end :: "int \<Rightarrow> chunk \<Rightarrow> string option \<Rightarrow> 'n \<Rightarrow> error option \<times> 'n"

text \<open>
  The state the two wrappers share: the accumulator \<^verbatim>\<open>resBody\<close>, the response's
  \<^verbatim>\<open>statusCode\<close>, the promise, the state of the wrapped response, and the log of
  forwarded calls.
\<close>

record 'n shim =
  resBody :: string
  res_statusCode :: int
  settled :: "outcome promise"
  node :: 'n
  forwarded :: "forwarded_call list"

text \<open>The caller-identity context; \<^verbatim>\<open>options.wxContext\<close> is optional.\<close>

record wxContext =
  OPENID :: jsval
  APPID :: jsval
  UNIONID :: jsval

text \<open>
  \<^verbatim>\<open>Buffer.isBuffer(chunk) ? Buffer.from(chunk, 'base64').toString('utf8') : chunk.toString()\<close>.
  \<open>utf8_decode\<close> is \<^verbatim>\<open>toString('utf8')\<close> on the bytes of a Buffer. Null and undefined
  have no \<^verbatim>\<open>toString\<close>.
\<close>

fun chunk_text :: "(nat list \<Rightarrow> string) \<Rightarrow> chunk \<Rightarrow> error + string" where
  "chunk_text utf8_decode (CBuffer b) = Inr (utf8_decode b)"
| "chunk_text utf8_decode (CString s) = Inr s"
| "chunk_text utf8_decode CNull = Inl TypeError"
| "chunk_text utf8_decode CUndefined = Inl TypeError"

fun chunk_truthy :: "chunk \<Rightarrow> bool" where
  "chunk_truthy CUndefined = False"
| "chunk_truthy CNull = False"
| "chunk_truthy (CString s) = (s \<noteq> [])"
| "chunk_truthy (CBuffer b) = True"

text \<open>
  The wrapper \<^verbatim>\<open>res.write\<close>. Every function of the shim returns the thrown error, if
  any, and the state it leaves; the text is appended to the accumulator before the call
  of \<^verbatim>\<open>_write\<close>, so it stays there when \<^verbatim>\<open>_write\<close> throws. \<^verbatim>\<open>_write\<close> gets the encoding
  only if it is truthy.
\<close>

definition write_call ::
  "'n platform \<Rightarrow> chunk \<Rightarrow> arg2 \<Rightarrow> nat option \<Rightarrow> 'n shim \<Rightarrow> error option \<times> 'n shim" where
  "write_call pf chunk encodingOrCallback callback s =
     (case chunk_text (utf8_text pf) chunk of
        Inl e \<Rightarrow> (Some e, s)
      | Inr t \<Rightarrow>
          (let s1 = s\<lparr>resBody := resBody s @ t\<rparr>;
               (encoding, cb) =
                 (case encodingOrCallback of
                    ECallback f \<Rightarrow> (None, Some f)
                  | EEncoding e \<Rightarrow> (Some e, callback)
                  | EUndefined \<Rightarrow> (None, callback));
               passed = (case encoding of
                           Some e \<Rightarrow> (if e \<noteq> [] then Some e else None)
                         | None \<Rightarrow> None);
               (thrown, n) = node_write pf (res_statusCode s1) chunk passed (node s1)
           in (thrown, s1\<lparr>node := n, forwarded := forwarded s1 @ [Fwd_write chunk passed cb]\<rparr>)))"

text \<open>
  The own enumerable properties that the spread \<^verbatim>\<open>{...v}\<close> copies: those of an object,
  the indexed elements of an array, none of null.
\<close>

fun own_props :: "jsval \<Rightarrow> (string \<times> jsval) list" where
  "own_props (JObject ps) = ps"
| "own_props (JArray xs) = zip (map decimal [0 ..< length xs]) xs"
| "own_props v = []"

definition wx_fields :: "wxContext option \<Rightarrow> jsval" where
  "wx_fields wx =
     JObject [(''openid'', case wx of None \<Rightarrow> JUndefined | Some w \<Rightarrow> OPENID w),
              (''appid'', case wx of None \<Rightarrow> JUndefined | Some w \<Rightarrow> APPID w),
              (''unionid'', case wx of None \<Rightarrow> JUndefined | Some w \<Rightarrow> UNIONID w)]"

text \<open>\<^verbatim>\<open>{...responseBody, wxContext: {openid, appid, unionid}}\<close>.\<close>

definition merge_wxContext :: "wxContext option \<Rightarrow> jsval \<Rightarrow> jsval" where
  "merge_wxContext wx v = JObject (AList.update ''wxContext'' (wx_fields wx) (own_props v))"

text \<open>
  The three call shapes of \<^verbatim>\<open>end\<close>: \<^verbatim>\<open>end(cb)\<close>, \<^verbatim>\<open>end(chunk, cb)\<close> and
  \<^verbatim>\<open>end(chunk, encoding, cb)\<close>.
\<close>

definition end_signature :: "arg1 \<Rightarrow> arg2 \<Rightarrow> nat option \<Rightarrow> chunk \<times> string option \<times> nat option" where
  "end_signature chunk encodingOrCb cb =
     (case chunk of
        AFunction f \<Rightarrow> (CUndefined, None, Some f)
      | AChunk c \<Rightarrow>
          (case encodingOrCb of
             ECallback f \<Rightarrow> (c, None, Some f)
           | EEncoding e \<Rightarrow> (c, Some e, cb)
           | EUndefined \<Rightarrow> (c, None, cb)))"

text \<open>
  The part of \<^verbatim>\<open>end\<close> after the final chunk has been written: parse the accumulator,
  merge the identity into an object, and build the value passed to \<^verbatim>\<open>resolve\<close>.
  \<open>parse\<close> is \<^verbatim>\<open>JSON.parse\<close>, \<open>None\<close> when it throws.
\<close>

definition response_value ::
  "(string \<Rightarrow> jsval option) \<Rightarrow> (int \<Rightarrow> string) \<Rightarrow> wxContext option \<Rightarrow> string \<Rightarrow> jsval" where
  "response_value parse num_text wx buf =
     (let responseBody = (case parse buf of None \<Rightarrow> JString buf | Some v \<Rightarrow> v);
          responseBody = (if typeof responseBody = TObject \<and> responseBody \<noteq> JNull
                          then merge_wxContext wx responseBody else responseBody)
      in if typeof responseBody = TObject
         then (case stringify num_text responseBody of Some t \<Rightarrow> JString t | None \<Rightarrow> JUndefined)
         else responseBody)"

text \<open>
  The wrapper \<^verbatim>\<open>res.end\<close>. A truthy final chunk goes through \<^verbatim>\<open>this.write\<close> first; if that
  throws, \<^verbatim>\<open>end\<close> throws there, before \<^verbatim>\<open>resolve\<close>. Otherwise the Outcome is resolved and
  the call is forwarded to \<^verbatim>\<open>_end\<close>, which may throw in its turn.
\<close>

definition end_call ::
  "'n platform \<Rightarrow> wxContext option \<Rightarrow> arg1 \<Rightarrow> arg2 \<Rightarrow> nat option \<Rightarrow> 'n shim
     \<Rightarrow> error option \<times> 'n shim" where
  "end_call pf wx chunk encodingOrCb cb s =
     (let (data, encoding, callback) = end_signature chunk encodingOrCb cb;
          (thrown, data1, s1) =
            (if chunk_truthy data
             then (case chunk_text (utf8_text pf) data of
                     Inl e \<Rightarrow> (Some e, data, s)
                   | Inr t \<Rightarrow>
                       (let (w, sw) = write_call pf (CString t)
                               (case encoding of None \<Rightarrow> EUndefined | Some e \<Rightarrow> EEncoding e) None s
                        in (w, CString t, sw)))
             else (None, data, s))
      in case thrown of
           Some e \<Rightarrow> (Some e, s1)
         | None \<Rightarrow>
             (let out = \<lparr> statusCode = res_statusCode s1,
                          body = response_value (JSON_parse pf) (Number_text pf) wx (resBody s1) \<rparr>;
                  s2 = s1\<lparr>settled := resolve out (settled s1)\<rparr>;
                  (e, n) = node_end pf (res_statusCode s2) data1 encoding (node s2)
              in (e, s2\<lparr>node := n, forwarded := forwarded s2 @ [Fwd_end data1 encoding callback]\<rparr>)))"

text \<open>
  What a handler, and the framework's error handling after it, do to the response, one
  call after the other: the two wrappers, an assignment to \<^verbatim>\<open>statusCode\<close>, or any other
  operation of the wrapped response, which changes that response's own state only. A
  call that throws leaves the state it had reached.
\<close>

datatype 'n call =
    Write chunk arg2 "nat option"
  | End arg1 arg2 "nat option"
  | Status int
  | Other "'n \<Rightarrow> 'n"

definition step :: "'n platform \<Rightarrow> wxContext option \<Rightarrow> 'n shim \<Rightarrow> 'n call \<Rightarrow> 'n shim" where
  "step pf wx s c =
     (case c of
        Write ch e cb \<Rightarrow> snd (write_call pf ch e cb s)
      | End ch e cb \<Rightarrow> snd (end_call pf wx ch e cb s)
      | Status n \<Rightarrow> s\<lparr>res_statusCode := n\<rparr>
      | Other f \<Rightarrow> s\<lparr>node := f (node s)\<rparr>)"

definition run :: "'n platform \<Rightarrow> wxContext option \<Rightarrow> 'n call list \<Rightarrow> 'n shim \<Rightarrow> 'n shim" where
  "run pf wx calls s = foldl (step pf wx) s calls"

text \<open>The state when \<^verbatim>\<open>app(req, res)\<close> is called: nothing written, nothing resolved.\<close>

definition initial_shim :: "int \<Rightarrow> 'n \<Rightarrow> 'n shim" where
  "initial_shim code n =
     \<lparr> resBody = [], res_statusCode = code, settled = Pending, node = n, forwarded = [] \<rparr>"

text \<open>
  The claim's wording of what the final chunk adds to the accumulator: the text of a
  non-empty string or of a Buffer, nothing otherwise.
\<close>

definition end_text :: "(nat list \<Rightarrow> string) \<Rightarrow> arg1 \<Rightarrow> string" where
  "end_text utf8_decode chunk =
     (case chunk of
        AChunk (CString t) \<Rightarrow> t
      | AChunk (CBuffer b) \<Rightarrow> utf8_decode b
      | _ \<Rightarrow> [])"

section \<open>Synthetic response: send (initExpressResponse)\<close>

text \<open>
  The response as \<^verbatim>\<open>send\<close> sees it: the header map, keyed by lower-cased name, and the
  status code. Of the request, \<^verbatim>\<open>send\<close> reads the method and \<^verbatim>\<open>req.fresh\<close>, a getter of
  the framework that looks at the response as it is when \<^verbatim>\<open>send\<close> reads it.
\<close>

record response =
  headers :: "string \<rightharpoonup> string"
  status :: int

record send_request =
  req_method :: string
  req_fresh :: "response \<Rightarrow> bool"

text \<open>
  What \<^verbatim>\<open>send\<close> takes from the framework and the libraries:
  \<^item> \<open>type_value t\<close>: the Content-Type value that \<^verbatim>\<open>this.type(t)\<close> stores;
  \<^item> \<open>content_type_charset v cs\<close>: \<^verbatim>\<open>contentType.parse\<close> of \<open>v\<close>, its charset parameter
    set to \<open>cs\<close>, formatted again; \<open>None\<close> when the parse throws;
  \<^item> \<open>etag_fn\<close>: the application setting \<^verbatim>\<open>'etag fn'\<close>, if it is a function; it returns
    a tag or a falsy value;
  \<^item> \<open>utf8_encode\<close>: the bytes of a string in UTF-8.
\<close>

record framework =
  type_value :: "string \<Rightarrow> string"
  content_type_charset :: "string \<Rightarrow> string \<Rightarrow> string option"
  etag_fn :: "(chunk \<Rightarrow> string option \<Rightarrow> string option) option"
  utf8_encode :: "string \<Rightarrow> nat list"

text \<open>The value handed to \<^verbatim>\<open>send\<close>: a Buffer or any other value.\<close>

datatype send_body = Buf "nat list" | Val jsval

text \<open>
  How \<^verbatim>\<open>send\<close> returns: through \<^verbatim>\<open>this.json(chunk)\<close>, through \<^verbatim>\<open>this.end()\<close>, or through
  \<^verbatim>\<open>this.end(chunk, encoding)\<close>.
\<close>

datatype terminal = Json jsval | End_plain | End_with chunk "string option"

definition get_header :: "response \<Rightarrow> string \<Rightarrow> string option" where
  "get_header r name = headers r name"

text \<open>\<^verbatim>\<open>!this.get(name)\<close>: the header is absent or empty.\<close>

definition header_unset :: "response \<Rightarrow> string \<Rightarrow> bool" where
  "header_unset r name = (case get_header r name of None \<Rightarrow> True | Some v \<Rightarrow> v = [])"

definition set_header :: "string \<Rightarrow> string \<Rightarrow> response \<Rightarrow> response" where
  "set_header name v r = r\<lparr>headers := (headers r)(name \<mapsto> v)\<rparr>"

definition removeHeader :: "string \<Rightarrow> response \<Rightarrow> response" where
  "removeHeader name r = r\<lparr>headers := (headers r)(name := None)\<rparr>"

definition set_type :: "framework \<Rightarrow> string \<Rightarrow> response \<Rightarrow> response" where
  "set_type fw t r = set_header ''content-type'' (type_value fw t) r"

text \<open>\<^verbatim>\<open>setCharset(type, charset)\<close>.\<close>

definition setCharset :: "framework \<Rightarrow> string \<Rightarrow> string \<Rightarrow> error + string" where
  "setCharset fw type charset =
     (if type = [] \<or> charset = [] then Inr type
      else (case content_type_charset fw type charset of
              None \<Rightarrow> Inl TypeError
            | Some v \<Rightarrow> Inr v))"

text \<open>
  The \<^verbatim>\<open>switch (typeof chunk)\<close> at the head of \<^verbatim>\<open>send\<close>. \<open>Inl v\<close> is the early
  \<^verbatim>\<open>return this.json(v)\<close>; otherwise the chunk and the response go on.
\<close>

fun dispatch :: "framework \<Rightarrow> send_body \<Rightarrow> response \<Rightarrow> jsval + chunk \<times> response" where
  "dispatch fw (Val (JString s)) r =
     Inr (CString s, if header_unset r ''content-type'' then set_type fw ''html'' r else r)"
| "dispatch fw (Val JUndefined) r = Inr (CUndefined, r)"
| "dispatch fw (Val JNull) r = Inr (CString [], r)"
| "dispatch fw (Buf b) r =
     Inr (CBuffer b, if header_unset r ''content-type'' then set_type fw ''bin'' r else r)"
| "dispatch fw (Val v) r = Inl v"

text \<open>Strings are written in UTF-8, and an existing Content-Type is made to say so.\<close>

definition charset_step :: "framework \<Rightarrow> chunk \<Rightarrow> response \<Rightarrow> error + string option \<times> response" where
  "charset_step fw chunk r =
     (case chunk of
        CString s \<Rightarrow>
          (case get_header r ''content-type'' of
             Some t \<Rightarrow>
               (case setCharset fw t ''utf-8'' of
                  Inl e \<Rightarrow> Inl e
                | Inr v \<Rightarrow> Inr (Some ''utf8'', set_header ''content-type'' v r))
           | None \<Rightarrow> Inr (Some ''utf8'', r))
      | _ \<Rightarrow> Inr (None, r))"

definition generateETag :: "framework \<Rightarrow> response \<Rightarrow> bool" where
  "generateETag fw r = (header_unset r ''etag'' \<and> etag_fn fw \<noteq> None)"

text \<open>
  Content-Length: the chunk, the encoding, the length (if any) and the response after
  the step. A string of 1000 characters or more, or any string when an ETag is due, is
  turned into a Buffer. Null has no \<^verbatim>\<open>length\<close>; the switch above never lets it through.
\<close>

definition length_step ::
  "framework \<Rightarrow> bool \<Rightarrow> chunk \<Rightarrow> string option \<Rightarrow> response
     \<Rightarrow> error + chunk \<times> string option \<times> nat option \<times> response" where
  "length_step fw gen chunk encoding r =
     (case chunk of
        CUndefined \<Rightarrow> Inr (chunk, encoding, None, r)
      | CNull \<Rightarrow> Inl TypeError
      | CBuffer b \<Rightarrow>
          Inr (chunk, encoding, Some (length b),
               set_header ''content-length'' (decimal (length b)) r)
      | CString s \<Rightarrow>
          (if \<not> gen \<and> length s < 1000
           then (let len = length (utf8_encode fw s)
                 in Inr (chunk, encoding, Some len, set_header ''content-length'' (decimal len) r))
           else (let b = utf8_encode fw s
                 in Inr (CBuffer b, None, Some (length b),
                         set_header ''content-length'' (decimal (length b)) r))))"

definition etag_step ::
  "framework \<Rightarrow> bool \<Rightarrow> chunk \<Rightarrow> string option \<Rightarrow> nat option \<Rightarrow> response \<Rightarrow> response" where
  "etag_step fw gen chunk encoding len r =
     (if gen \<and> len \<noteq> None
      then (case etag_fn fw of
              Some f \<Rightarrow>
                (case f chunk encoding of
                   Some tag \<Rightarrow> (if tag \<noteq> [] then set_header ''etag'' tag r else r)
                 | None \<Rightarrow> r)
            | None \<Rightarrow> r)
      else r)"

definition fresh_step :: "send_request \<Rightarrow> response \<Rightarrow> response" where
  "fresh_step req r = (if req_fresh req r then r\<lparr>status := 304\<rparr> else r)"

text \<open>Status 204 and 304: no entity headers, no body.\<close>

definition strip_step :: "chunk \<Rightarrow> response \<Rightarrow> chunk \<times> response" where
  "strip_step chunk r =
     (if status r = 204 \<or> status r = 304
      then (CString [],
            removeHeader ''transfer-encoding''
              (removeHeader ''content-length'' (removeHeader ''content-type'' r)))
      else (chunk, r))"

text \<open>Status 205: a zero Content-Length, no body.\<close>

definition reset_step :: "chunk \<Rightarrow> response \<Rightarrow> chunk \<times> response" where
  "reset_step chunk r =
     (if status r = 205
      then (CString [], removeHeader ''transfer-encoding'' (set_header ''content-length'' ''0'' r))
      else (chunk, r))"

definition finish :: "send_request \<Rightarrow> chunk \<Rightarrow> string option \<Rightarrow> terminal" where
  "finish req chunk encoding = (if req_method req = ''HEAD'' then End_plain else End_with chunk encoding)"

text \<open>\<^verbatim>\<open>res.send(body)\<close>: the steps above in the order of the source.\<close>

definition send :: "framework \<Rightarrow> send_request \<Rightarrow> send_body \<Rightarrow> response \<Rightarrow> error + terminal \<times> response" where
  "send fw req val r =
     (case dispatch fw val r of
        Inl v \<Rightarrow> Inr (Json v, r)
      | Inr (chunk, r1) \<Rightarrow>
          (case charset_step fw chunk r1 of
             Inl e \<Rightarrow> Inl e
           | Inr (encoding, r2) \<Rightarrow>
               (let gen = generateETag fw r2 in
                case length_step fw gen chunk encoding r2 of
                  Inl e \<Rightarrow> Inl e
                | Inr (chunk3, encoding3, len, r3) \<Rightarrow>
                    (let r4 = etag_step fw gen chunk3 encoding3 len r3;
                         r5 = fresh_step req r4;
                         (chunk6, r6) = strip_step chunk3 r5;
                         (chunk7, r7) = reset_step chunk6 r6
                     in Inr (finish req chunk7 encoding3, r7)))))"

text \<open>
  The claim's wording, for the statements about \<^verbatim>\<open>send\<close>: the Content-Type that is
  already set or else the default \<open>d\<close>; and a response that terminates with the body \<open>c\<close>,
  or with no body written at all.
\<close>

definition content_type_or :: "response \<Rightarrow> string \<Rightarrow> string" where
  "content_type_or r d =
     (case get_header r ''content-type'' of
        None \<Rightarrow> d
      | Some v \<Rightarrow> (if v = [] then d else v))"

definition written :: "terminal \<Rightarrow> chunk \<Rightarrow> bool" where
  "written t c = (t = End_plain \<or> (\<exists>enc. t = End_with c enc))"

section \<open>Example values\<close>

definition example_cookie :: "jsnum option \<Rightarrow> js_date option \<Rightarrow> cookie" where
  "example_cookie m e =
     \<lparr> path = ''/'', httpOnly = True, p_maxAge = m, p_expires = e, secure = None,
       partitioned = None, priority = None, domain = None, sameSite = None \<rparr>"

definition example_session :: "string \<Rightarrow> cookie option \<Rightarrow> session" where
  "example_session i c = \<lparr> sid = i, cookie = c \<rparr>"

definition example_store :: "cookie option \<Rightarrow> unit memory_store" where
  "example_store c =
     \<lparr> sessions = [''a'' \<mapsto> example_session ''a'' c, ''b'' \<mapsto> example_session ''b'' c] \<rparr>"

definition example_request :: "bool option \<Rightarrow> (string \<rightharpoonup> jsval) option \<Rightarrow> unit request" where
  "example_request sec h =
     \<lparr> r_sessionId = ''s1'', r_session = None, r_secure = sec, r_header = h,
       r_originalUrl = ''/'' \<rparr>"

text \<open>
  \<^verbatim>\<open>JSON.parse\<close> on the texts of the examples: the number \<^verbatim>\<open>123\<close> and the object
  \<^verbatim>\<open>{"a":1}\<close>. The examples apply it to these two and to texts that are not JSON.
\<close>

definition example_parse :: "string \<Rightarrow> jsval option" where
  "example_parse t =
     (if t = ''123'' then Some (JNumber (Num 123))
      else if t = ''{'' @ quote ''a'' @ '':1}'' then Some (JObject [(''a'', JNumber (Num 1))])
      else None)"

definition example_decode :: "nat list \<Rightarrow> string" where
  "example_decode b = map char_of b"

text \<open>
  The wrapped response of the examples, after Node's \<^verbatim>\<open>http.ServerResponse\<close>: the first
  write or end flushes the header, and that throws a RangeError for a status code
  outside 100..999; a write or end after the response has finished throws nothing.
\<close>

record http_state =
  headerSent :: bool
  finished :: bool

definition http_header :: "int \<Rightarrow> http_state \<Rightarrow> error option \<times> http_state" where
  "http_header code n =
     (if headerSent n then (None, n)
      else if code < 100 \<or> 999 < code then (Some RangeError, n)
      else (None, n\<lparr>headerSent := True\<rparr>))"

definition http_write :: "int \<Rightarrow> chunk \<Rightarrow> string option \<Rightarrow> http_state \<Rightarrow> error option \<times> http_state" where
  "http_write code chunk encoding n =
     (case chunk of
        CNull \<Rightarrow> (Some TypeError, n)
      | CUndefined \<Rightarrow> (Some TypeError, n)
      | _ \<Rightarrow> (if finished n then (None, n) else http_header code n))"

definition http_end :: "int \<Rightarrow> chunk \<Rightarrow> string option \<Rightarrow> http_state \<Rightarrow> error option \<times> http_state" where
  "http_end code chunk encoding n =
     (if finished n then (None, n)
      else (case http_header code n of
              (Some e, n1) \<Rightarrow> (Some e, n1)
            | (None, n1) \<Rightarrow> (None, n1\<lparr>finished := True\<rparr>)))"

definition example_platform :: "http_state platform" where
  "example_platform =
     \<lparr> JSON_parse = example_parse, Number_text = int_string, utf8_text = example_decode,
       node_write = http_write, node_end = http_end \<rparr>"

definition example_start :: "int \<Rightarrow> http_state shim" where
  "example_start code = initial_shim code \<lparr> headerSent = False, finished = False \<rparr>"

definition example_wxContext :: wxContext where
  "example_wxContext =
     \<lparr> OPENID = JString ''OID'', APPID = JString ''APP'', UNIONID = JString ''UID'' \<rparr>"

definition example_framework :: framework where
  "example_framework =
     \<lparr> type_value = (\<lambda>t. if t = ''html'' then ''text/html; charset=utf-8''
                           else ''application/octet-stream''),
       content_type_charset = (\<lambda>v cs. Some (takeWhile (\<lambda>c. c \<noteq> CHR '';'') v @ ''; charset='' @ cs)),
       etag_fn = None,
       utf8_encode = map of_char \<rparr>"

definition example_response :: "int \<Rightarrow> response" where
  "example_response code = \<lparr> headers = Map.empty, status = code \<rparr>"

definition example_get :: send_request where
  "example_get = \<lparr> req_method = ''GET'', req_fresh = (\<lambda>x. False) \<rparr>"

definition example_head :: send_request where
  "example_head = \<lparr> req_method = ''HEAD'', req_fresh = (\<lambda>x. True) \<rparr>"

definition example_sent :: response where
  "example_sent =
     \<lparr> headers = [''content-type'' \<mapsto> ''text/html; charset=utf-8'', ''content-length'' \<mapsto> ''2''],
       status = 200 \<rparr>"

definition example_binary_sent :: response where
  "example_binary_sent =
     \<lparr> headers = [''content-type'' \<mapsto> ''application/octet-stream'', ''content-length'' \<mapsto> ''2''],
       status = 200 \<rparr>"

definition example_null_sent :: response where
  "example_null_sent = \<lparr> headers = [''content-length'' \<mapsto> ''0''], status = 200 \<rparr>"

definition example_reset :: response where
  "example_reset = \<lparr> headers = [''content-type'' \<mapsto> ''text/plain''], status = 205 \<rparr>"

definition example_reset_sent :: response where
  "example_reset_sent =
     \<lparr> headers = [''content-type'' \<mapsto> ''text/plain; charset=utf-8'',
                    ''content-length'' \<mapsto> ''0''](''transfer-encoding'' := None),
       status = 205 \<rparr>"

text \<open>A state of the shim after a first \<^verbatim>\<open>end('first')\<close> with status 200.\<close>

definition example_done :: "http_state shim" where
  "example_done =
     \<lparr> resBody = ''first'', res_statusCode = 200,
       settled = Fulfilled \<lparr> statusCode = 200, body = JString ''first'' \<rparr>,
       node = \<lparr> headerSent = True, finished = True \<rparr>,
       forwarded = [Fwd_write (CString ''first'') None None,
                    Fwd_end (CString ''first'') None None] \<rparr>"

section \<open>Session store: lazy expiry\<close>

lemma getSession_absent:
  "sessions st i = None \<Longrightarrow> getSession now st i = (None, st)"
  by (simp add: getSession_def)

lemma getSession_other_key:
  "j \<noteq> i \<Longrightarrow> sessions (snd (getSession now st i)) j = sessions st j"
  by (simp add: getSession_def split: option.splits)

text \<open>
  C6. Reading a session id from the store when the cookie's expiry instant is at or
  before the current time deletes that session and delivers nothing; reading it before
  the expiry delivers the stored session and leaves the store as it is. The read looks
  at no other session: an expired session stays in the store until it is read itself.
\<close>

theorem getSession_lazy_expiry:
  "(sessions st i = None \<longrightarrow> getSession now st i = (None, st)) \<and>
   (sessions st i = Some s \<and> cookie s = Some c \<and> get_expires c = Some (DateMs e) \<longrightarrow>
      (e \<le> now \<longrightarrow>
         getSession now st i = (None, st\<lparr>sessions := (sessions st)(i := None)\<rparr>) \<and>
         MemoryStore_get now st i (Some k)
           = (Inr (Scheduled k None), st\<lparr>sessions := (sessions st)(i := None)\<rparr>)) \<and>
      (now < e \<longrightarrow>
         getSession now st i = (Some s, st) \<and>
         MemoryStore_get now st i (Some k) = (Inr (Scheduled k (Some s)), st))) \<and>
   (\<forall>j. j \<noteq> i \<longrightarrow> sessions (snd (getSession now st i)) j = sessions st j)"
  by (simp add: getSession_def MemoryStore_get_def split: option.splits)

theorem getSession_lazy_expiry_witness:
  "getSession 2000 (example_store (Some (example_cookie None (Some (DateMs 1000))))) ''a''
     = (None, \<lparr> sessions = [''b'' \<mapsto> example_session ''b''
                                 (Some (example_cookie None (Some (DateMs 1000))))] \<rparr>) \<and>
   getSession 999 (example_store (Some (example_cookie None (Some (DateMs 1000))))) ''a''
     = (Some (example_session ''a'' (Some (example_cookie None (Some (DateMs 1000))))),
        example_store (Some (example_cookie None (Some (DateMs 1000))))) \<and>
   getSession 2000 (example_store (Some (example_cookie None (Some (DateMs 1000))))) ''c''
     = (None, example_store (Some (example_cookie None (Some (DateMs 1000)))))"
  using getSession_lazy_expiry
          [of "example_store (Some (example_cookie None (Some (DateMs 1000))))" "''a''" 2000
              "example_session ''a'' (Some (example_cookie None (Some (DateMs 1000))))"
              "example_cookie None (Some (DateMs 1000))" 1000 0]
        getSession_lazy_expiry
          [of "example_store (Some (example_cookie None (Some (DateMs 1000))))" "''a''" 999
              "example_session ''a'' (Some (example_cookie None (Some (DateMs 1000))))"
              "example_cookie None (Some (DateMs 1000))" 1000 0]
        getSession_lazy_expiry
          [of "example_store (Some (example_cookie None (Some (DateMs 1000))))" "''c''" 2000
              "example_session ''a'' (Some (example_cookie None (Some (DateMs 1000))))"
              "example_cookie None (Some (DateMs 1000))" 1000 0]
  by (simp add: example_store_def example_session_def example_cookie_def get_expires_def
        fun_upd_twist)

text \<open>
  C10. A stored session without a cookie, or whose cookie carries no expiry, is
  delivered by every read, whatever the time, and is never deleted. Conversely a read
  that finds a stored session and delivers nothing found a cookie with an expiry date.
\<close>

theorem getSession_no_expiry_kept:
  "(sessions st i = Some s \<and>
      (cookie s = None \<or> (\<exists>c. cookie s = Some c \<and> get_expires c = None)) \<longrightarrow>
      getSession now st i = (Some s, st) \<and>
      MemoryStore_get now st i (Some k) = (Inr (Scheduled k (Some s)), st)) \<and>
   (sessions st i \<noteq> None \<and> fst (getSession now st i) = None \<longrightarrow>
      (\<exists>s c d. sessions st i = Some s \<and> cookie s = Some c \<and> get_expires c = Some d))"
  by (auto simp add: getSession_def MemoryStore_get_def split: option.splits if_splits)

theorem getSession_no_expiry_kept_witness:
  "getSession 2000 (example_store None) ''a''
     = (Some (example_session ''a'' None), example_store None) \<and>
   getSession 2000 (example_store (Some (example_cookie None None))) ''a''
     = (Some (example_session ''a'' (Some (example_cookie None None))),
        example_store (Some (example_cookie None None))) \<and>
   fst (getSession 2000 (example_store (Some (example_cookie None (Some (DateMs 1000))))) ''a'')
     = None \<and>
   get_expires (example_cookie None (Some (DateMs 1000))) = Some (DateMs 1000)"
  using getSession_no_expiry_kept
          [of "example_store None" "''a''" "example_session ''a'' None" 2000 0]
        getSession_no_expiry_kept
          [of "example_store (Some (example_cookie None None))" "''a''"
              "example_session ''a'' (Some (example_cookie None None))" 2000 0]
        getSession_no_expiry_kept
          [of "example_store (Some (example_cookie None (Some (DateMs 1000))))" "''a''"
              "example_session ''a'' (Some (example_cookie None (Some (DateMs 1000))))" 2000 0]
  by (simp add: example_store_def example_session_def example_cookie_def get_expires_def
        getSession_def)

section \<open>Secure-cookie determination\<close>

lemma indexOf_ge: "- 1 \<le> indexOf h c"
  by (induction h) (auto simp: Let_def)

lemma indexOf_absent: "(indexOf h c = - 1) = (c \<notin> set h)"
proof (induction h)
  case Nil
  show ?case by simp
next
  case (Cons x xs)
  have "- 1 \<le> indexOf xs c" by (rule indexOf_ge)
  with Cons show ?case by (auto simp: Let_def)
qed

lemma substr0_indexOf:
  "indexOf h c \<noteq> - 1 \<Longrightarrow> substr0 h (indexOf h c) = takeWhile (\<lambda>x. x \<noteq> c) h"
proof (induction h)
  case Nil
  then show ?case by simp
next
  case (Cons x xs)
  show ?case
  proof (cases "x = c")
    case True
    then show ?thesis by (simp add: substr0_def)
  next
    case False
    with Cons.prems have ne: "indexOf xs c \<noteq> - 1" by (auto simp: Let_def split: if_splits)
    have ge: "- 1 \<le> indexOf xs c" by (rule indexOf_ge)
    from ne ge have "nat (indexOf xs c + 1) = Suc (nat (indexOf xs c))" by simp
    with False ne Cons.IH show ?thesis by (simp add: substr0_def Let_def)
  qed
qed

lemma takeWhile_absent: "c \<notin> set h \<Longrightarrow> takeWhile (\<lambda>x. x \<noteq> c) h = h"
  by (induction h) auto

lemma first_entry_code:
  "(if indexOf h (CHR '','') \<noteq> - 1 then substr0 h (indexOf h (CHR '','')) else h)
     = first_entry h"
  by (simp add: substr0_indexOf first_entry_def indexOf_absent takeWhile_absent)

text \<open>
  The three cases of \<^verbatim>\<open>isSecure\<close>, on the header that the source reads: false when
  \<open>trustProxy\<close> is explicitly false; the request's own \<^verbatim>\<open>secure\<close> flag when \<open>trustProxy\<close>
  is unset; otherwise whether the first comma-separated entry of the header, lower-cased
  and trimmed, is \<^verbatim>\<open>https\<close> (false when the header is absent or empty).
\<close>

lemma isSecure_cases:
  "isSecure req (Some False) = Inr False \<and>
   isSecure req None = Inr (r_secure req = Some True) \<and>
   (\<forall>h. proto_header req = JString h \<longrightarrow>
      isSecure req (Some True) = Inr (trim (toLowerCase (first_entry h)) = ''https'')) \<and>
   (\<not> truthy (proto_header req) \<longrightarrow> isSecure req (Some True) = Inr False)"
proof -
  have a: "isSecure req (Some False) = Inr False" by (simp add: isSecure_def)
  have b: "isSecure req None = Inr (r_secure req = Some True)" by (simp add: isSecure_def)
  have c: "isSecure req (Some True) = Inr (trim (toLowerCase (first_entry h)) = ''https'')"
    if "proto_header req = JString h" for h
  proof (cases "h = []")
    case True
    with that show ?thesis
      by (simp add: isSecure_def first_entry_def trim_def toLowerCase_def)
  next
    case False
    have "trim (toLowerCase (if indexOf h (CHR '','') \<noteq> - 1
                             then substr0 h (indexOf h (CHR '','')) else h))
            = trim (toLowerCase (first_entry h))"
      by (simp only: first_entry_code)
    with that False show ?thesis
      by (simp add: isSecure_def Let_def split: if_splits)
  qed
  have d: "isSecure req (Some True) = Inr False" if "\<not> truthy (proto_header req)"
    using that by (simp add: isSecure_def trim_def toLowerCase_def)
  from a b c d show ?thesis by blast
qed

lemma isSecure_cases_example:
  "isSecure (example_request None (Some [''x-forworded-proto'' \<mapsto> JString '' HTTPS , http'']))
     (Some True) = Inr True \<and>
   isSecure (example_request (Some True) None) (Some True) = Inr False"
  using isSecure_cases
          [of "example_request None (Some [''x-forworded-proto'' \<mapsto> JString '' HTTPS , http''])"]
        isSecure_cases [of "example_request (Some True) None"]
  by (simp add: example_request_def proto_header_def first_entry_def toLowerCase_def
        lower_char_def trim_def is_ws_def)

text \<open>
  C9. The claim says that with \<open>trustProxy\<close> true the result is true iff the first entry
  of the forwarded-protocol header is \<^verbatim>\<open>https\<close>. The source reads the header under the
  name \<^verbatim>\<open>x-forworded-proto\<close>; a request whose \<^verbatim>\<open>x-forwarded-proto\<close> header is \<^verbatim>\<open>https\<close> is
  reported as not secure.
\<close>

theorem isSecure_forwarded_proto_not_read:
  "isSecure (example_request None (Some [''x-forwarded-proto'' \<mapsto> JString ''https'']))
     (Some True) = Inr False"
  by (simp add: isSecure_def proto_header_def example_request_def trim_def toLowerCase_def)

section \<open>Session middleware\<close>

lemma session_middleware_passes_on:
  "r_session req \<noteq> None \<or> \<not> ready \<Longrightarrow> Call_next \<in> set (session_middleware ready req True)"
  by (auto simp: session_middleware_def)

lemma session_middleware_ready_no_session:
  "r_session req = None \<Longrightarrow> session_middleware True req next = []"
  by (simp add: session_middleware_def)

text \<open>
  C4. The claim says that the middleware calls \<^verbatim>\<open>next\<close> for every request, also when a
  fresh session must be established. For a request without a session, while the store
  is ready (as it is from construction on), the middleware returns without calling
  \<^verbatim>\<open>next\<close> and without any other effect.
\<close>

theorem session_middleware_fresh_request_not_passed_on:
  "session_middleware (storeReady []) (example_request None None) True = []"
  by (simp add: session_middleware_def storeReady_def example_request_def)

section \<open>Session touch\<close>

text \<open>
  If the clock shows the same instant at its three readings, \<^verbatim>\<open>touch()\<close> sets the expiry
  to that instant plus the configured duration and leaves the configured duration as it
  is; the live \<^verbatim>\<open>maxAge\<close> is then the configured duration again.
\<close>

lemma Session_touch_frozen_clock:
  assumes "cookie s = Some c" "getOriMaxAge c = Some (Num ms)" "ms \<noteq> 0"
    and "\<bar>t + ms\<bar> \<le> 8640000000000000"
  shows "\<exists>c'. cookie (Session_touch t t t s) = Some c' \<and>
           get_expires c' = Some (DateMs (t + ms)) \<and>
           getOriMaxAge c' = Some (Num ms) \<and>
           get_maxAge t c' = Some (Num ms)"
  using assms
  by (simp add: Session_touch_def set_expires_def new_Date_def get_maxAge_def get_expires_def
        getOriMaxAge_def setOriMaxAge_def)

text \<open>
  In general the \<^verbatim>\<open>expires\<close> setter stores the live countdown, read at the third clock
  reading, as the configured duration.
\<close>

lemma Session_touch_general:
  assumes "cookie s = Some c" "getOriMaxAge c = Some (Num ms)" "ms \<noteq> 0"
    and "\<bar>t1 + ms\<bar> \<le> 8640000000000000"
  shows "\<exists>c'. cookie (Session_touch t1 t2 t3 s) = Some c' \<and>
           get_expires c' = Some (DateMs (t1 + ms)) \<and>
           getOriMaxAge c' = Some (Num (if t1 + ms = t2 then ms else t1 + ms - t3))"
  using assms
  by (simp add: Session_touch_def set_expires_def new_Date_def get_maxAge_def get_expires_def
        getOriMaxAge_def setOriMaxAge_def)

text \<open>
  The constructor keeps the configured duration whatever the clock does: it stores it
  again after the setter has run.
\<close>

lemma new_Cookie_keeps_maxAge:
  "o_maxAge opts = Some (Num ms) \<Longrightarrow> ms \<noteq> 0 \<Longrightarrow> o_expires opts = None \<Longrightarrow>
     getOriMaxAge (new_Cookie t1 t2 t3 t4 t5 opts) = Some (Num ms)"
  by (simp add: new_Cookie_def getOriMaxAge_def setOriMaxAge_def)

text \<open>
  C8. The claim says that \<^verbatim>\<open>touch()\<close> renews the expiry without changing the configured
  duration. With a configured duration of 1000 ms, a \<^verbatim>\<open>touch()\<close> during which the clock
  moves from 5000 to 5001 leaves 999 ms as the configured duration.
\<close>

theorem Session_touch_clock_tick:
  "map_option getOriMaxAge
     (cookie (Session_touch 5000 5001 5001
        (example_session ''a'' (Some (example_cookie (Some (Num 1000)) (Some (DateMs 5500)))))))
     = Some (Some (Num 999))"
  by (simp add: Session_touch_def set_expires_def new_Date_def get_maxAge_def get_expires_def
        getOriMaxAge_def setOriMaxAge_def example_session_def example_cookie_def)

section \<open>Event normalizer: defaults\<close>

lemma upper_char_idem: "upper_char (upper_char c) = upper_char c"
  by (simp add: upper_char_def)

lemma toUpperCase_idem: "toUpperCase (toUpperCase s) = toUpperCase s"
  by (simp add: toUpperCase_def upper_char_idem)

lemma get_prop_total:
  "param \<noteq> JUndefined \<Longrightarrow> param \<noteq> JNull \<Longrightarrow> \<exists>v. get_prop param k = Inr v"
  by (cases param) simp_all

text \<open>
  For an event that is neither undefined nor null the normalizer returns, and each
  field that is falsy or of another type than the one tested gets its default; the
  method is upper-cased. The body \<^verbatim>\<open>null\<close> is not among these cases.
\<close>

lemma getExpressParams_defaults:
  assumes "param \<noteq> JUndefined" and "param \<noteq> JNull"
  shows "\<exists>r. getExpressParams num_text param = Inr r \<and>
     (\<forall>v. get_prop param ''path'' = Inr v \<and> (\<not> truthy v \<or> typeof v \<noteq> TString)
        \<longrightarrow> ep_path r = ''/'') \<and>
     (\<forall>v. get_prop param ''httpMethod'' = Inr v \<and> (\<not> truthy v \<or> typeof v \<noteq> TString)
        \<longrightarrow> ep_httpMethod r = ''GET'') \<and>
     (\<forall>v. get_prop param ''headers'' = Inr v \<and> (\<not> truthy v \<or> typeof v \<noteq> TObject)
        \<longrightarrow> ep_headers r = JObject []) \<and>
     (\<forall>v. get_prop param ''queryStringParameters'' = Inr v \<and> (\<not> truthy v \<or> typeof v \<noteq> TObject)
        \<longrightarrow> ep_queryStringParameters r = JObject []) \<and>
     (\<forall>v. get_prop param ''body'' = Inr v \<and> v \<noteq> JNull \<and>
            (\<not> truthy v \<or> (typeof v \<noteq> TString \<and> typeof v \<noteq> TObject))
        \<longrightarrow> ep_body r = JString []) \<and>
     (get_prop param ''isBase64Encoded'' = Inr JUndefined \<longrightarrow> \<not> ep_isBase64Encoded r) \<and>
     toUpperCase (ep_httpMethod r) = ep_httpMethod r"
proof -
  obtain p m h q b f where g:
    "get_prop param ''path'' = Inr p" "get_prop param ''httpMethod'' = Inr m"
    "get_prop param ''headers'' = Inr h" "get_prop param ''queryStringParameters'' = Inr q"
    "get_prop param ''body'' = Inr b" "get_prop param ''isBase64Encoded'' = Inr f"
    using get_prop_total [OF assms] by metis
  have p: "\<not> truthy v \<or> typeof v \<noteq> TString \<Longrightarrow> string_or v d = d" for v d
    by (cases v) (auto simp: string_or_def)
  have o: "\<not> truthy v \<or> typeof v \<noteq> TObject \<Longrightarrow> object_or_empty v = JObject []" for v
    by (simp add: object_or_empty_def)
  have n: "v \<noteq> JNull \<Longrightarrow> \<not> truthy v \<or> (typeof v \<noteq> TString \<and> typeof v \<noteq> TObject)
             \<Longrightarrow> normalize_body num_text v = JString []" for v
    by (cases v) (auto simp: normalize_body_def)
  have u: "toUpperCase ''GET'' = ''GET''"
    by (simp add: toUpperCase_def upper_char_def)
  show ?thesis
    using g p o n u by (simp add: getExpressParams_def toUpperCase_idem)
qed

text \<open>
  C2. The claim says that a body that is absent or of the wrong type gives the empty
  string. For the event \<^verbatim>\<open>{body: null}\<close> the normalizer gives every other field its
  default and the body the four-character string \<^verbatim>\<open>null\<close>.
\<close>

theorem getExpressParams_null_body:
  "getExpressParams num_text (JObject [(''body'', JNull)]) =
     Inr \<lparr> ep_path = ''/'', ep_httpMethod = ''GET'', ep_headers = JObject [],
           ep_queryStringParameters = JObject [], ep_body = JString ''null'',
           ep_isBase64Encoded = False \<rparr>"
  by (simp add: getExpressParams_def string_or_def object_or_empty_def normalize_body_def
        toUpperCase_def upper_char_def)

section \<open>Response capture shim: the Outcome\<close>

lemma write_call_keeps:
  "write_call pf ch e cb s = (err, s') \<Longrightarrow>
     res_statusCode s' = res_statusCode s \<and> settled s' = settled s"
  by (cases "chunk_text (utf8_text pf) ch")
     (auto simp: write_call_def Let_def split: prod.splits)

lemma write_call_string:
  "write_call pf (CString t) e cb s = (err, s') \<Longrightarrow>
     resBody s' = resBody s @ t \<and> res_statusCode s' = res_statusCode s \<and> settled s' = settled s"
  by (auto simp: write_call_def Let_def split: prod.splits)

text \<open>
  What \<^verbatim>\<open>end\<close> leaves, whether it throws or not: the final chunk is in the accumulator,
  the status code is untouched, and the promise is as it was or has been handed the
  value built from the accumulator; it has been handed that value if nothing was thrown.
\<close>

lemma end_call_effect:
  assumes "end_call pf wx a e cb s = (err, s')"
  shows "resBody s' = resBody s @ end_text (utf8_text pf) a"
    and "res_statusCode s' = res_statusCode s"
    and "settled s' = settled s \<or>
         settled s' = resolve \<lparr> statusCode = res_statusCode s,
             body = response_value (JSON_parse pf) (Number_text pf) wx (resBody s') \<rparr> (settled s)"
    and "err = None \<Longrightarrow>
         settled s' = resolve \<lparr> statusCode = res_statusCode s,
             body = response_value (JSON_parse pf) (Number_text pf) wx (resBody s') \<rparr> (settled s)"
proof -
  obtain data encoding callback where sg: "end_signature a e cb = (data, encoding, callback)"
    by (cases "end_signature a e cb") auto
  have tx: "end_text (utf8_text pf) a =
      (if chunk_truthy data then (case chunk_text (utf8_text pf) data of Inr t \<Rightarrow> t | Inl _ \<Rightarrow> []) else [])"
    using sg by (cases a; cases e; cases data) (auto simp: end_signature_def end_text_def split: chunk.splits)
  have all: "resBody s' = resBody s @ end_text (utf8_text pf) a \<and>
     res_statusCode s' = res_statusCode s \<and>
     (settled s' = settled s \<or>
         settled s' = resolve \<lparr> statusCode = res_statusCode s,
             body = response_value (JSON_parse pf) (Number_text pf) wx (resBody s') \<rparr> (settled s)) \<and>
     (err = None \<longrightarrow>
         settled s' = resolve \<lparr> statusCode = res_statusCode s,
             body = response_value (JSON_parse pf) (Number_text pf) wx (resBody s') \<rparr> (settled s))"
  proof (cases "chunk_truthy data")
    case False
    with sg tx assms show ?thesis
      by (auto simp: end_call_def Let_def split: prod.splits)
  next
    case True
    then obtain t where t: "chunk_text (utf8_text pf) data = Inr t" by (cases data) auto
    obtain w sw where w: "write_call pf (CString t)
        (case encoding of None \<Rightarrow> EUndefined | Some x \<Rightarrow> EEncoding x) None s = (w, sw)"
      by (cases "write_call pf (CString t)
        (case encoding of None \<Rightarrow> EUndefined | Some x \<Rightarrow> EEncoding x) None s") auto
    note k = write_call_string [OF w]
    show ?thesis
    proof (cases w)
      case None
      with sg True t w k tx assms show ?thesis
        by (auto simp: end_call_def Let_def split: prod.splits)
    next
      case (Some x)
      with sg True t w k tx assms show ?thesis
        by (auto simp: end_call_def Let_def)
    qed
  qed
  from all show "resBody s' = resBody s @ end_text (utf8_text pf) a" by blast
  from all show "res_statusCode s' = res_statusCode s" by blast
  from all show "settled s' = settled s \<or>
         settled s' = resolve \<lparr> statusCode = res_statusCode s,
             body = response_value (JSON_parse pf) (Number_text pf) wx (resBody s') \<rparr> (settled s)"
    by blast
  from all show "err = None \<Longrightarrow>
         settled s' = resolve \<lparr> statusCode = res_statusCode s,
             body = response_value (JSON_parse pf) (Number_text pf) wx (resBody s') \<rparr> (settled s)"
    by blast
qed


lemma stringify_object: "\<exists>t. stringify num_text (JObject ps) = Some t"
  by simp

lemma merge_wxContext_props:
  "\<exists>ps. merge_wxContext wx v = JObject ps \<and>
        map_of ps ''wxContext'' = Some (JObject [(''openid'', case wx of None \<Rightarrow> JUndefined | Some w \<Rightarrow> OPENID w),
                          (''appid'', case wx of None \<Rightarrow> JUndefined | Some w \<Rightarrow> APPID w),
                          (''unionid'', case wx of None \<Rightarrow> JUndefined | Some w \<Rightarrow> UNIONID w)]) \<and>
        (\<forall>k. k \<noteq> ''wxContext'' \<longrightarrow> map_of ps k = map_of (own_props v) k)"
  by (simp add: merge_wxContext_def wx_fields_def update_conv')

lemma response_value_object:
  "parse buf = Some v \<Longrightarrow> typeof v = TObject \<Longrightarrow> v \<noteq> JNull \<Longrightarrow>
     \<exists>t. stringify num_text (merge_wxContext wx v) = Some t \<and>
         response_value parse num_text wx buf = JString t"
  by (simp add: response_value_def merge_wxContext_def)

lemma response_value_raw:
  "parse buf = None \<Longrightarrow> response_value parse num_text wx buf = JString buf"
  by (simp add: response_value_def)

text \<open>
  C1. When the intercepted \<^verbatim>\<open>end\<close> completes a response (the Outcome was pending and the
  call resolves it, as it does whenever it does not throw), the whole accumulated buffer
  (what was written before, then the final chunk) has been parsed as JSON. If the parse
  yields a non-null object, the Outcome body is the serialization of that object with a
  \<^verbatim>\<open>wxContext\<close> property whose \<^verbatim>\<open>openid\<close>, \<^verbatim>\<open>appid\<close> and \<^verbatim>\<open>unionid\<close> are the \<^verbatim>\<open>OPENID\<close>,
  \<^verbatim>\<open>APPID\<close> and \<^verbatim>\<open>UNIONID\<close> of the caller-identity context (undefined without a context),
  every other property kept. If the parse fails, the Outcome body is the accumulated
  string itself.
\<close>

theorem end_call_outcome_body:
  "settled s = Pending \<and> end_call pf wx a e cb s = (err, s') \<longrightarrow>
     resBody s' = resBody s @ end_text (utf8_text pf) a \<and>
     (err = None \<longrightarrow> settled s' \<noteq> Pending) \<and>
     (settled s' \<noteq> Pending \<longrightarrow>
      (\<forall>v. JSON_parse pf (resBody s') = Some v \<and> typeof v = TObject \<and> v \<noteq> JNull \<longrightarrow>
         (\<exists>ps t. merge_wxContext wx v = JObject ps \<and>
            map_of ps ''wxContext'' = Some (JObject [(''openid'', case wx of None \<Rightarrow> JUndefined | Some w \<Rightarrow> OPENID w),
                          (''appid'', case wx of None \<Rightarrow> JUndefined | Some w \<Rightarrow> APPID w),
                          (''unionid'', case wx of None \<Rightarrow> JUndefined | Some w \<Rightarrow> UNIONID w)]) \<and>
            (\<forall>k. k \<noteq> ''wxContext'' \<longrightarrow> map_of ps k = map_of (own_props v) k) \<and>
            stringify (Number_text pf) (JObject ps) = Some t \<and>
            settled s' = Fulfilled \<lparr> statusCode = res_statusCode s, body = JString t \<rparr>)) \<and>
      (JSON_parse pf (resBody s') = None \<longrightarrow>
         settled s' = Fulfilled \<lparr> statusCode = res_statusCode s, body = JString (resBody s') \<rparr>))"
proof (intro impI, elim conjE)
  assume pend: "settled s = Pending" and ec: "end_call pf wx a e cb s = (err, s')"
  note eff = end_call_effect [OF ec]
  let ?out = "\<lparr> statusCode = res_statusCode s,
                 body = response_value (JSON_parse pf) (Number_text pf) wx (resBody s') \<rparr>"
  have r: "resolve ?out (settled s) = Fulfilled ?out" using pend by simp
  have ok: "err = None \<longrightarrow> settled s' \<noteq> Pending"
    using eff(4) r by auto
  have st: "settled s' \<noteq> Pending \<Longrightarrow> settled s' = Fulfilled ?out"
    using eff(3) r pend by auto
  have obj: "settled s' \<noteq> Pending \<longrightarrow>
      (\<forall>v. JSON_parse pf (resBody s') = Some v \<and> typeof v = TObject \<and> v \<noteq> JNull \<longrightarrow>
         (\<exists>ps t. merge_wxContext wx v = JObject ps \<and>
            map_of ps ''wxContext'' = Some (JObject [(''openid'', case wx of None \<Rightarrow> JUndefined | Some w \<Rightarrow> OPENID w),
                          (''appid'', case wx of None \<Rightarrow> JUndefined | Some w \<Rightarrow> APPID w),
                          (''unionid'', case wx of None \<Rightarrow> JUndefined | Some w \<Rightarrow> UNIONID w)]) \<and>
            (\<forall>k. k \<noteq> ''wxContext'' \<longrightarrow> map_of ps k = map_of (own_props v) k) \<and>
            stringify (Number_text pf) (JObject ps) = Some t \<and>
            settled s' = Fulfilled \<lparr> statusCode = res_statusCode s, body = JString t \<rparr>)) \<and>
      (JSON_parse pf (resBody s') = None \<longrightarrow>
         settled s' = Fulfilled \<lparr> statusCode = res_statusCode s, body = JString (resBody s') \<rparr>)"
  proof (intro impI conjI allI, elim conjE)
    fix v
    assume np: "settled s' \<noteq> Pending"
      and hv: "JSON_parse pf (resBody s') = Some v" "typeof v = TObject" "v \<noteq> JNull"
    obtain ps where ps: "merge_wxContext wx v = JObject ps"
      "map_of ps ''wxContext'' = Some (JObject [(''openid'', case wx of None \<Rightarrow> JUndefined | Some w \<Rightarrow> OPENID w),
                          (''appid'', case wx of None \<Rightarrow> JUndefined | Some w \<Rightarrow> APPID w),
                          (''unionid'', case wx of None \<Rightarrow> JUndefined | Some w \<Rightarrow> UNIONID w)])"
      "\<forall>k. k \<noteq> ''wxContext'' \<longrightarrow> map_of ps k = map_of (own_props v) k"
      using merge_wxContext_props by blast
    obtain t where t: "stringify (Number_text pf) (merge_wxContext wx v) = Some t"
      "response_value (JSON_parse pf) (Number_text pf) wx (resBody s') = JString t"
      using response_value_object [of "JSON_parse pf" "resBody s'" v "Number_text pf" wx, OF hv]
      by blast
    from ps t st [OF np] show "(\<exists>ps t. merge_wxContext wx v = JObject ps \<and>
            map_of ps ''wxContext'' = Some (JObject [(''openid'', case wx of None \<Rightarrow> JUndefined | Some w \<Rightarrow> OPENID w),
                          (''appid'', case wx of None \<Rightarrow> JUndefined | Some w \<Rightarrow> APPID w),
                          (''unionid'', case wx of None \<Rightarrow> JUndefined | Some w \<Rightarrow> UNIONID w)]) \<and>
            (\<forall>k. k \<noteq> ''wxContext'' \<longrightarrow> map_of ps k = map_of (own_props v) k) \<and>
            stringify (Number_text pf) (JObject ps) = Some t \<and>
            settled s' = Fulfilled \<lparr> statusCode = res_statusCode s, body = JString t \<rparr>)"
      by auto
  next
    assume np: "settled s' \<noteq> Pending" and "JSON_parse pf (resBody s') = None"
    then show "settled s' = Fulfilled \<lparr> statusCode = res_statusCode s, body = JString (resBody s') \<rparr>"
      using st by (simp add: response_value_raw)
  qed
  from eff(1) ok obj show "resBody s' = resBody s @ end_text (utf8_text pf) a \<and>
     (err = None \<longrightarrow> settled s' \<noteq> Pending) \<and>
     (settled s' \<noteq> Pending \<longrightarrow>
      (\<forall>v. JSON_parse pf (resBody s') = Some v \<and> typeof v = TObject \<and> v \<noteq> JNull \<longrightarrow>
         (\<exists>ps t. merge_wxContext wx v = JObject ps \<and>
            map_of ps ''wxContext'' = Some (JObject [(''openid'', case wx of None \<Rightarrow> JUndefined | Some w \<Rightarrow> OPENID w),
                          (''appid'', case wx of None \<Rightarrow> JUndefined | Some w \<Rightarrow> APPID w),
                          (''unionid'', case wx of None \<Rightarrow> JUndefined | Some w \<Rightarrow> UNIONID w)]) \<and>
            (\<forall>k. k \<noteq> ''wxContext'' \<longrightarrow> map_of ps k = map_of (own_props v) k) \<and>
            stringify (Number_text pf) (JObject ps) = Some t \<and>
            settled s' = Fulfilled \<lparr> statusCode = res_statusCode s, body = JString t \<rparr>)) \<and>
      (JSON_parse pf (resBody s') = None \<longrightarrow>
         settled s' = Fulfilled \<lparr> statusCode = res_statusCode s, body = JString (resBody s') \<rparr>))"
    by (intro conjI)
qed


lemmas shim_eval =
  end_call_def end_signature_def write_call_def response_value_def initial_shim_def
  example_start_def example_platform_def example_parse_def example_decode_def
  http_write_def http_end_def http_header_def step_def run_def

lemma end_example_object:
  "end_call example_platform (Some example_wxContext)
      (AChunk (CString (''{'' @ quote ''a'' @ '':1}''))) EUndefined None (example_start 200)
     = (None,
        \<lparr> resBody = ''{'' @ quote ''a'' @ '':1}'', res_statusCode = 200,
          settled = Fulfilled \<lparr> statusCode = 200,
            body = JString (''{'' @ quote ''a'' @ '':1,'' @ quote ''wxContext'' @ '':{''
                     @ quote ''openid'' @ '':'' @ quote ''OID'' @ '',''
                     @ quote ''appid'' @ '':'' @ quote ''APP'' @ '',''
                     @ quote ''unionid'' @ '':'' @ quote ''UID'' @ ''}}'') \<rparr>,
          node = \<lparr> headerSent = True, finished = True \<rparr>,
          forwarded = [Fwd_write (CString (''{'' @ quote ''a'' @ '':1}'')) None None,
                       Fwd_end (CString (''{'' @ quote ''a'' @ '':1}'')) None None] \<rparr>)"
  by (simp add: shim_eval example_wxContext_def merge_wxContext_def wx_fields_def
        quote_def quote_char_def int_string_def decimal.simps)

lemma end_example_no_context:
  "end_call example_platform None
      (AChunk (CString (''{'' @ quote ''a'' @ '':1}''))) EUndefined None (example_start 200)
     = (None,
        \<lparr> resBody = ''{'' @ quote ''a'' @ '':1}'', res_statusCode = 200,
          settled = Fulfilled \<lparr> statusCode = 200,
            body = JString (''{'' @ quote ''a'' @ '':1,'' @ quote ''wxContext'' @ '':{}}'') \<rparr>,
          node = \<lparr> headerSent = True, finished = True \<rparr>,
          forwarded = [Fwd_write (CString (''{'' @ quote ''a'' @ '':1}'')) None None,
                       Fwd_end (CString (''{'' @ quote ''a'' @ '':1}'')) None None] \<rparr>)"
  by (simp add: shim_eval merge_wxContext_def wx_fields_def
        quote_def quote_char_def int_string_def decimal.simps)

lemma end_example_raw:
  "end_call example_platform (Some example_wxContext)
      (AChunk (CString ''number:123'')) EUndefined None (example_start 200)
     = (None,
        \<lparr> resBody = ''number:123'', res_statusCode = 200,
          settled = Fulfilled \<lparr> statusCode = 200, body = JString ''number:123'' \<rparr>,
          node = \<lparr> headerSent = True, finished = True \<rparr>,
          forwarded = [Fwd_write (CString ''number:123'') None None,
                       Fwd_end (CString ''number:123'') None None] \<rparr>)"
  by (simp add: shim_eval)

lemma end_example_throw:
  "end_call example_platform (Some example_wxContext)
      (AChunk (CString ''x'')) EUndefined None (example_start 1000)
     = (Some RangeError,
        \<lparr> resBody = ''x'', res_statusCode = 1000, settled = Pending,
          node = \<lparr> headerSent = False, finished = False \<rparr>,
          forwarded = [Fwd_write (CString ''x'') None None] \<rparr>)"
  by (simp add: shim_eval)

theorem end_call_outcome_body_witness:
  "settled (example_start 200) = Pending \<and>
   end_call example_platform (Some example_wxContext)
      (AChunk (CString (''{'' @ quote ''a'' @ '':1}''))) EUndefined None (example_start 200)
     = (None,
        \<lparr> resBody = ''{'' @ quote ''a'' @ '':1}'', res_statusCode = 200,
          settled = Fulfilled \<lparr> statusCode = 200,
            body = JString (''{'' @ quote ''a'' @ '':1,'' @ quote ''wxContext'' @ '':{''
                     @ quote ''openid'' @ '':'' @ quote ''OID'' @ '',''
                     @ quote ''appid'' @ '':'' @ quote ''APP'' @ '',''
                     @ quote ''unionid'' @ '':'' @ quote ''UID'' @ ''}}'') \<rparr>,
          node = \<lparr> headerSent = True, finished = True \<rparr>,
          forwarded = [Fwd_write (CString (''{'' @ quote ''a'' @ '':1}'')) None None,
                       Fwd_end (CString (''{'' @ quote ''a'' @ '':1}'')) None None] \<rparr>) \<and>
   JSON_parse example_platform (''{'' @ quote ''a'' @ '':1}'') = Some (JObject [(''a'', JNumber (Num 1))]) \<and>
   settled (snd (end_call example_platform (Some example_wxContext)
      (AChunk (CString ''number:123'')) EUndefined None (example_start 200)))
     = Fulfilled \<lparr> statusCode = 200, body = JString ''number:123'' \<rparr> \<and>
   JSON_parse example_platform ''number:123'' = None \<and>
   settled (snd (end_call example_platform (Some example_wxContext)
      (AChunk (CString ''x'')) EUndefined None (example_start 1000))) = Pending"
  using end_call_outcome_body
          [of "example_start 200" example_platform "Some example_wxContext"
              "AChunk (CString (''{'' @ quote ''a'' @ '':1}''))" EUndefined None None
              "snd (end_call example_platform (Some example_wxContext)
                 (AChunk (CString (''{'' @ quote ''a'' @ '':1}''))) EUndefined None (example_start 200))"]
        end_call_outcome_body
          [of "example_start 200" example_platform "Some example_wxContext"
              "AChunk (CString ''number:123'')" EUndefined None None
              "snd (end_call example_platform (Some example_wxContext)
                 (AChunk (CString ''number:123'')) EUndefined None (example_start 200))"]
        end_example_object end_example_raw end_example_throw
  by (simp add: example_start_def initial_shim_def example_platform_def example_parse_def)


lemma step_keeps_fulfilled:
  "settled s = Fulfilled out \<Longrightarrow> settled (step pf wx s c) = Fulfilled out"
proof (cases c)
  case (Write ch e cb)
  assume f: "settled s = Fulfilled out"
  obtain err s' where w: "write_call pf ch e cb s = (err, s')"
    by (cases "write_call pf ch e cb s") auto
  from write_call_keeps [OF w] f Write w show ?thesis by (simp add: step_def)
next
  case (End a e cb)
  assume f: "settled s = Fulfilled out"
  obtain err s' where w: "end_call pf wx a e cb s = (err, s')"
    by (cases "end_call pf wx a e cb s") auto
  from end_call_effect(3) [OF w] f have "settled s' = Fulfilled out" by auto
  with End w show ?thesis by (simp add: step_def)
next
  case (Status n)
  assume "settled s = Fulfilled out"
  with Status show ?thesis by (simp add: step_def)
next
  case (Other f)
  assume "settled s = Fulfilled out"
  with Other show ?thesis by (simp add: step_def)
qed

lemma run_keeps_fulfilled:
  "settled s = Fulfilled out \<Longrightarrow> settled (run pf wx calls s) = Fulfilled out"
  unfolding run_def
  by (induction calls arbitrary: s) (simp_all add: step_keeps_fulfilled)

lemma run_append: "run pf wx (earlier @ later) s = run pf wx later (run pf wx earlier s)"
  by (simp add: run_def)

text \<open>
  C3. The Outcome is resolved at most once. Once it is resolved, whatever is called then
  (further writes, status changes, further \<^verbatim>\<open>end\<close> calls, throwing or not) leaves it as
  it is: at whatever point of a sequence of calls the Outcome is resolved, it is the
  same at every later point. And an \<^verbatim>\<open>end\<close> call on a pending Outcome that does not throw
  resolves it, so that the Outcome after any later calls is the one this call resolved.
\<close>

theorem outcome_resolved_once:
  "(settled s = Fulfilled out \<longrightarrow> settled (run pf wx calls s) = Fulfilled out) \<and>
   (settled (run pf wx earlier s) = Fulfilled out \<longrightarrow>
      settled (run pf wx (earlier @ later) s) = Fulfilled out) \<and>
   (settled s = Pending \<and> fst (end_call pf wx a e cb s) = None \<longrightarrow>
      (\<exists>first. settled (snd (end_call pf wx a e cb s)) = Fulfilled first \<and>
         settled (run pf wx (End a e cb # calls) s) = Fulfilled first))"
proof (intro conjI impI)
  assume "settled s = Fulfilled out"
  then show "settled (run pf wx calls s) = Fulfilled out" by (rule run_keeps_fulfilled)
next
  assume "settled (run pf wx earlier s) = Fulfilled out"
  then show "settled (run pf wx (earlier @ later) s) = Fulfilled out"
    by (simp add: run_append run_keeps_fulfilled)
next
  assume h: "settled s = Pending \<and> fst (end_call pf wx a e cb s) = None"
  obtain err s1 where ec: "end_call pf wx a e cb s = (err, s1)"
    by (cases "end_call pf wx a e cb s") auto
  with h have "err = None" by simp
  from end_call_effect(4) [OF ec this] h obtain first where f: "settled s1 = Fulfilled first"
    by simp
  have "run pf wx (End a e cb # calls) s = run pf wx calls s1"
    using ec by (simp add: run_def step_def)
  with f have "settled (run pf wx (End a e cb # calls) s) = Fulfilled first"
    by (simp add: run_keeps_fulfilled)
  with ec f show "\<exists>first. settled (snd (end_call pf wx a e cb s)) = Fulfilled first \<and>
         settled (run pf wx (End a e cb # calls) s) = Fulfilled first" by simp
qed

lemma run_example_first:
  "settled (run example_platform None
              [End (AChunk (CString ''first'')) EUndefined None,
               Status 500,
               End (AChunk (CString ''second'')) EUndefined None] (example_start 200))
     = Fulfilled \<lparr> statusCode = 200, body = JString ''first'' \<rparr>"
  by (simp add: shim_eval)

lemma run_example_done:
  "settled (run example_platform None
              [Status 500, End (AChunk (CString ''second'')) EUndefined None] example_done)
     = Fulfilled \<lparr> statusCode = 200, body = JString ''first'' \<rparr>"
  by (simp add: shim_eval example_done_def)

lemma run_example_throw:
  "settled (run example_platform None
              [Status 1000, End (AChunk (CString ''x'')) EUndefined None] (example_start 200))
     = Pending \<and>
   settled (run example_platform None
              [Status 1000, End (AChunk (CString ''x'')) EUndefined None,
               Status 200, End (AChunk (CString ''y'')) EUndefined None] (example_start 200))
     = Fulfilled \<lparr> statusCode = 200, body = JString ''xy'' \<rparr>"
  by (simp add: shim_eval)

lemma end_example_first:
  "fst (end_call example_platform None (AChunk (CString ''first'')) EUndefined None
          (example_start 200)) = None"
  by (simp add: shim_eval)

theorem outcome_resolved_once_witness:
  "settled (example_start 200) = Pending \<and>
   fst (end_call example_platform None (AChunk (CString ''first'')) EUndefined None
          (example_start 200)) = None \<and>
   settled (run example_platform None
              [End (AChunk (CString ''first'')) EUndefined None,
               Status 500,
               End (AChunk (CString ''second'')) EUndefined None] (example_start 200))
     = Fulfilled \<lparr> statusCode = 200, body = JString ''first'' \<rparr> \<and>
   settled example_done = Fulfilled \<lparr> statusCode = 200, body = JString ''first'' \<rparr> \<and>
   settled (run example_platform None
              [Status 500, End (AChunk (CString ''second'')) EUndefined None] example_done)
     = Fulfilled \<lparr> statusCode = 200, body = JString ''first'' \<rparr> \<and>
   settled (run example_platform None
              [Status 1000, End (AChunk (CString ''x'')) EUndefined None,
               Status 200, End (AChunk (CString ''y'')) EUndefined None] (example_start 200))
     = Fulfilled \<lparr> statusCode = 200, body = JString ''xy'' \<rparr> \<and>
   settled (run example_platform None
              ([Status 1000, End (AChunk (CString ''x'')) EUndefined None,
                Status 200, End (AChunk (CString ''y'')) EUndefined None]
               @ [Status 404, End (AChunk (CString ''z'')) EUndefined None]) (example_start 200))
     = Fulfilled \<lparr> statusCode = 200, body = JString ''xy'' \<rparr>"
  using outcome_resolved_once
          [of "example_start 200" "\<lparr> statusCode = 200, body = JString ''first'' \<rparr>"
              example_platform None
              "[Status 500, End (AChunk (CString ''second'')) EUndefined None]"
              "[]" "[]" "AChunk (CString ''first'')" EUndefined None]
        outcome_resolved_once
          [of example_done "\<lparr> statusCode = 200, body = JString ''first'' \<rparr>"
              example_platform None
              "[Status 500, End (AChunk (CString ''second'')) EUndefined None]"
              "[]" "[]" "AChunk (CString ''first'')" EUndefined None]
        outcome_resolved_once
          [of "example_start 200" "\<lparr> statusCode = 200, body = JString ''xy'' \<rparr>"
              example_platform None "[]"
              "[Status 1000, End (AChunk (CString ''x'')) EUndefined None,
                Status 200, End (AChunk (CString ''y'')) EUndefined None]"
              "[Status 404, End (AChunk (CString ''z'')) EUndefined None]"
              "AChunk (CString ''first'')" EUndefined None]
        run_example_first run_example_done run_example_throw end_example_first
  by (simp add: example_start_def initial_shim_def example_done_def)

text \<open>
  The body is a string whenever the parse fails, or yields an object, an array, null or
  a string.
\<close>

lemma response_value_string:
  "parse buf = None \<or> (\<exists>v. parse buf = Some v \<and> (typeof v = TObject \<or> typeof v = TString))
     \<Longrightarrow> \<exists>t. response_value parse num_text wx buf = JString t"
proof (cases "parse buf")
  case None
  then show ?thesis by (simp add: response_value_def)
next
  case (Some v)
  assume "parse buf = None \<or> (\<exists>v. parse buf = Some v \<and> (typeof v = TObject \<or> typeof v = TString))"
  with Some have "typeof v = TObject \<or> typeof v = TString" by simp
  with Some show ?thesis
    by (cases v) (simp_all add: response_value_def merge_wxContext_def)
qed

text \<open>
  C7. The claim says that the body of the resolved Outcome is a string. When the
  accumulated text is the JSON of a number, the code resolves with the number: a handler
  that ends the response with the text \<^verbatim>\<open>123\<close> gets the body 123, not the string.
\<close>

theorem outcome_body_number:
  "settled (run example_platform None
              [End (AChunk (CString ''123'')) EUndefined None] (example_start 200))
     = Fulfilled \<lparr> statusCode = 200, body = JNumber (Num 123) \<rparr>"
  by (simp add: shim_eval)

section \<open>Synthetic response: the steps of send\<close>

lemma send_json:
  "typeof v = TBoolean \<or> typeof v = TNumber \<or> (typeof v = TObject \<and> v \<noteq> JNull)
     \<Longrightarrow> send fw req (Val v) r = Inr (Json v, r)"
  by (cases v) (simp_all add: send_def)

lemma dispatch_status:
  "dispatch fw val r = Inr (chunk, r1) \<Longrightarrow> status r1 = status r"
  by (cases "(fw, val, r)" rule: dispatch.cases) (auto simp: set_type_def set_header_def)

lemma charset_step_status:
  "charset_step fw chunk r = Inr (enc, r2) \<Longrightarrow> status r2 = status r"
  by (auto simp: charset_step_def set_header_def split: chunk.splits option.splits sum.splits)

lemma length_step_status:
  "length_step fw gen chunk enc r = Inr (chunk3, enc3, len, r3) \<Longrightarrow> status r3 = status r"
  by (auto simp: length_step_def set_header_def Let_def split: chunk.splits if_splits)

lemma etag_step_status: "status (etag_step fw gen chunk enc len r) = status r"
  by (simp add: etag_step_def set_header_def split: option.splits)

lemma fresh_step_status: "status (fresh_step req r) = (if req_fresh req r then 304 else status r)"
  by (simp add: fresh_step_def)

lemma strip_reset:
  assumes "strip_step chunk r = (chunk6, r6)" and "reset_step chunk6 r6 = (chunk7, r7)"
  shows "status r7 = status r"
    and "status r = 204 \<or> status r = 304 \<Longrightarrow>
           chunk7 = CString [] \<and> headers r7 ''content-type'' = None \<and>
           headers r7 ''content-length'' = None \<and> headers r7 ''transfer-encoding'' = None"
    and "status r = 205 \<Longrightarrow>
           chunk7 = CString [] \<and> headers r7 ''content-length'' = Some ''0'' \<and>
           headers r7 ''transfer-encoding'' = None"
    and "status r \<noteq> 204 \<Longrightarrow> status r \<noteq> 304 \<Longrightarrow> status r \<noteq> 205 \<Longrightarrow> chunk7 = chunk \<and> r7 = r"
    and "status r \<noteq> 204 \<Longrightarrow> status r \<noteq> 304 \<Longrightarrow> headers r7 ''content-type'' = headers r ''content-type''"
  using assms
  by (auto simp: strip_step_def reset_step_def removeHeader_def set_header_def split: if_splits)

text \<open>What \<^verbatim>\<open>send\<close> does once the switch has let a chunk through.\<close>

lemma send_unfold:
  assumes "dispatch fw val r = Inr (chunk, r1)" and "send fw req val r = Inr (t, r')"
  obtains enc r2 chunk3 enc3 len r3 chunk6 r6 chunk7 where
    "charset_step fw chunk r1 = Inr (enc, r2)"
    "length_step fw (generateETag fw r2) chunk enc r2 = Inr (chunk3, enc3, len, r3)"
    "strip_step chunk3 (fresh_step req (etag_step fw (generateETag fw r2) chunk3 enc3 len r3)) = (chunk6, r6)"
    "reset_step chunk6 r6 = (chunk7, r')"
    "t = finish req chunk7 enc3"
  using assms
  by (auto simp: send_def Let_def split: sum.splits prod.splits)

lemma send_status:
  assumes "dispatch fw val r = Inr (chunk, r1)" and "send fw req val r = Inr (t, r')"
  shows "(status r' = 304 \<or> status r' = status r) \<and>
         ((\<forall>x. \<not> req_fresh req x) \<longrightarrow> status r' = status r) \<and>
         ((\<forall>x. req_fresh req x) \<longrightarrow> status r' = 304)"
proof -
  from assms obtain enc r2 chunk3 enc3 len r3 chunk6 r6 chunk7 where u:
    "charset_step fw chunk r1 = Inr (enc, r2)"
    "length_step fw (generateETag fw r2) chunk enc r2 = Inr (chunk3, enc3, len, r3)"
    "strip_step chunk3 (fresh_step req (etag_step fw (generateETag fw r2) chunk3 enc3 len r3)) = (chunk6, r6)"
    "reset_step chunk6 r6 = (chunk7, r')"
    by (rule send_unfold)
  let ?r4 = "etag_step fw (generateETag fw r2) chunk3 enc3 len r3"
  have "status r' = status (fresh_step req ?r4)"
    using strip_reset(1) [OF u(3) u(4)] .
  also have "\<dots> = (if req_fresh req ?r4 then 304 else status r3)"
    by (simp add: fresh_step_status etag_step_status)
  also have "status r3 = status r"
    using length_step_status [OF u(2)] charset_step_status [OF u(1)] dispatch_status [OF assms(1)]
    by simp
  finally have "status r' = (if req_fresh req ?r4 then 304 else status r)" .
  then show ?thesis by auto
qed

lemma send_strip:
  assumes "dispatch fw val r = Inr (chunk, r1)" and "send fw req val r = Inr (t, r')"
    and "status r' = 204 \<or> status r' = 304"
  shows "headers r' ''content-type'' = None \<and> headers r' ''content-length'' = None \<and>
         headers r' ''transfer-encoding'' = None \<and> written t (CString [])"
proof -
  from assms(1,2) obtain enc r2 chunk3 enc3 len r3 chunk6 r6 chunk7 where u:
    "strip_step chunk3 (fresh_step req (etag_step fw (generateETag fw r2) chunk3 enc3 len r3)) = (chunk6, r6)"
    "reset_step chunk6 r6 = (chunk7, r')"
    "t = finish req chunk7 enc3"
    by (rule send_unfold)
  from assms(3) strip_reset(1) [OF u(1) u(2)] strip_reset(2) [OF u(1) u(2)] u(3)
  show ?thesis by (auto simp: written_def finish_def)
qed

lemma send_reset:
  assumes "dispatch fw val r = Inr (chunk, r1)" and "send fw req val r = Inr (t, r')"
    and "status r' = 205"
  shows "headers r' ''content-length'' = Some ''0'' \<and>
         headers r' ''transfer-encoding'' = None \<and> written t (CString [])"
proof -
  from assms(1,2) obtain enc r2 chunk3 enc3 len r3 chunk6 r6 chunk7 where u:
    "strip_step chunk3 (fresh_step req (etag_step fw (generateETag fw r2) chunk3 enc3 len r3)) = (chunk6, r6)"
    "reset_step chunk6 r6 = (chunk7, r')"
    "t = finish req chunk7 enc3"
    by (rule send_unfold)
  from assms(3) strip_reset(1) [OF u(1) u(2)] strip_reset(3) [OF u(1) u(2)] u(3)
  show ?thesis by (auto simp: written_def finish_def)
qed

lemma send_finish:
  assumes "dispatch fw val r = Inr (chunk, r1)" and "send fw req val r = Inr (t, r')"
  shows "(req_method req = ''HEAD'' \<longrightarrow> t = End_plain) \<and>
         (req_method req \<noteq> ''HEAD'' \<longrightarrow> (\<exists>c enc. t = End_with c enc))"
proof -
  from assms(1,2) obtain enc3 chunk7 where "t = finish req chunk7 enc3"
    by (rule send_unfold)
  then show ?thesis by (simp add: finish_def)
qed

lemma length_step_content_type:
  "length_step fw gen chunk enc r = Inr (chunk3, enc3, len, r3) \<Longrightarrow>
     headers r3 ''content-type'' = headers r ''content-type''"
  by (auto simp: length_step_def set_header_def Let_def split: chunk.splits if_splits)

lemma etag_step_content_type:
  "headers (etag_step fw gen chunk enc len r) ''content-type'' = headers r ''content-type''"
  by (simp add: etag_step_def set_header_def split: option.splits)

lemma fresh_step_headers: "headers (fresh_step req r) = headers r"
  by (simp add: fresh_step_def)

lemma send_content_type:
  assumes "dispatch fw val r = Inr (chunk, r1)" and "send fw req val r = Inr (t, r')"
    and "status r' \<noteq> 204" and "status r' \<noteq> 304"
  shows "\<exists>enc r2. charset_step fw chunk r1 = Inr (enc, r2) \<and>
           headers r' ''content-type'' = headers r2 ''content-type''"
proof -
  from assms(1,2) obtain enc r2 chunk3 enc3 len r3 chunk6 r6 chunk7 where u:
    "charset_step fw chunk r1 = Inr (enc, r2)"
    "length_step fw (generateETag fw r2) chunk enc r2 = Inr (chunk3, enc3, len, r3)"
    "strip_step chunk3 (fresh_step req (etag_step fw (generateETag fw r2) chunk3 enc3 len r3)) = (chunk6, r6)"
    "reset_step chunk6 r6 = (chunk7, r')"
    by (rule send_unfold)
  let ?r5 = "fresh_step req (etag_step fw (generateETag fw r2) chunk3 enc3 len r3)"
  have "status ?r5 = status r'" using strip_reset(1) [OF u(3) u(4)] by simp
  with assms(3,4) have "headers r' ''content-type'' = headers ?r5 ''content-type''"
    using strip_reset(5) [OF u(3) u(4)] by simp
  also have "\<dots> = headers r2 ''content-type''"
    using length_step_content_type [OF u(2)]
    by (simp add: fresh_step_headers etag_step_content_type)
  finally show ?thesis using u(1) by blast
qed

lemma send_string_content_type:
  assumes "send fw req (Val (JString s)) r = Inr (t, r')"
    and "status r' \<noteq> 204" and "status r' \<noteq> 304"
  shows "\<exists>ct. setCharset fw (content_type_or r (type_value fw ''html'')) ''utf-8'' = Inr ct \<and>
           headers r' ''content-type'' = Some ct"
proof -
  let ?r1 = "if header_unset r ''content-type'' then set_type fw ''html'' r else r"
  have d: "dispatch fw (Val (JString s)) r = Inr (CString s, ?r1)" by simp
  have h1: "get_header ?r1 ''content-type'' = Some (content_type_or r (type_value fw ''html''))"
    by (auto simp: header_unset_def content_type_or_def set_type_def set_header_def get_header_def
          split: option.splits)
  from send_content_type [OF d assms] obtain enc r2 where c:
    "charset_step fw (CString s) ?r1 = Inr (enc, r2)"
    "headers r' ''content-type'' = headers r2 ''content-type''" by blast
  from c(1) h1 obtain ct where
    "setCharset fw (content_type_or r (type_value fw ''html'')) ''utf-8'' = Inr ct"
    "headers r2 ''content-type'' = Some ct"
    by (auto simp: charset_step_def set_header_def split: sum.splits)
  with c(2) show ?thesis by simp
qed

lemma send_buffer_content_type:
  assumes "send fw req (Buf b) r = Inr (t, r')"
    and "status r' \<noteq> 204" and "status r' \<noteq> 304"
  shows "headers r' ''content-type'' = Some (content_type_or r (type_value fw ''bin''))"
proof -
  let ?r1 = "if header_unset r ''content-type'' then set_type fw ''bin'' r else r"
  have d: "dispatch fw (Buf b) r = Inr (CBuffer b, ?r1)" by simp
  have h1: "headers ?r1 ''content-type'' = Some (content_type_or r (type_value fw ''bin''))"
    by (auto simp: header_unset_def content_type_or_def set_type_def set_header_def get_header_def
          split: option.splits)
  from send_content_type [OF d assms] obtain enc r2 where c:
    "charset_step fw (CBuffer b) ?r1 = Inr (enc, r2)"
    "headers r' ''content-type'' = headers r2 ''content-type''" by blast
  from c(1) have "r2 = ?r1" by (simp add: charset_step_def)
  with c(2) h1 show ?thesis by simp
qed

lemma send_null_as_empty_string:
  "\<not> header_unset r ''content-type'' \<Longrightarrow>
     send fw req (Val JNull) r = send fw req (Val (JString [])) r"
  by (simp add: send_def)

lemma send_null_no_default:
  assumes "send fw req (Val JNull) r = Inr (t, r')"
    and "status r' \<noteq> 204" and "status r' \<noteq> 304" and "header_unset r ''content-type''"
  shows "headers r' ''content-type'' = headers r ''content-type''"
proof -
  have d: "dispatch fw (Val JNull) r = Inr (CString [], r)" by simp
  from send_content_type [OF d assms(1,2,3)] obtain enc r2 where c:
    "charset_step fw (CString []) r = Inr (enc, r2)"
    "headers r' ''content-type'' = headers r2 ''content-type''" by blast
  from c(1) assms(4) have "headers r2 ''content-type'' = headers r ''content-type''"
    by (auto simp: charset_step_def header_unset_def get_header_def set_header_def setCharset_def
          split: option.splits)
  with c(2) show ?thesis by simp
qed

lemma charset_step_encoding:
  "charset_step fw chunk r = Inr (enc, r2) \<Longrightarrow>
     enc = (case chunk of CString s \<Rightarrow> Some ''utf8'' | _ \<Rightarrow> None)"
  by (cases chunk) (auto simp: charset_step_def split: option.splits sum.splits)

lemma length_step_chunk:
  "length_step fw gen chunk enc r = Inr (chunk3, enc3, len, r3) \<Longrightarrow>
     (chunk3 = chunk \<and> enc3 = enc) \<or>
     (\<exists>s. chunk = CString s \<and> chunk3 = CBuffer (utf8_encode fw s) \<and> enc3 = None)"
  by (cases chunk) (auto simp: length_step_def Let_def split: if_splits)

lemma send_body_written:
  assumes "dispatch fw val r = Inr (chunk, r1)" and "send fw req val r = Inr (End_with c e, r')"
    and "status r' \<noteq> 204" and "status r' \<noteq> 304" and "status r' \<noteq> 205"
  shows "(c = chunk \<and> e = (case chunk of CString s \<Rightarrow> Some ''utf8'' | _ \<Rightarrow> None)) \<or>
         (\<exists>s. chunk = CString s \<and> c = CBuffer (utf8_encode fw s) \<and> e = None)"
proof -
  from assms(1,2) obtain enc r2 chunk3 enc3 len r3 chunk6 r6 chunk7 where u:
    "charset_step fw chunk r1 = Inr (enc, r2)"
    "length_step fw (generateETag fw r2) chunk enc r2 = Inr (chunk3, enc3, len, r3)"
    "strip_step chunk3 (fresh_step req (etag_step fw (generateETag fw r2) chunk3 enc3 len r3)) = (chunk6, r6)"
    "reset_step chunk6 r6 = (chunk7, r')"
    "End_with c e = finish req chunk7 enc3"
    by (rule send_unfold)
  let ?r5 = "fresh_step req (etag_step fw (generateETag fw r2) chunk3 enc3 len r3)"
  have st: "status ?r5 = status r'" using strip_reset(1) [OF u(3) u(4)] by simp
  have "status ?r5 \<noteq> 204" "status ?r5 \<noteq> 304" "status ?r5 \<noteq> 205"
    using assms(3,4,5) st by presburger+
  then have c7: "chunk7 = chunk3" by (rule strip_reset(4) [OF u(3) u(4), THEN conjunct1])
  from u(5) have "req_method req \<noteq> ''HEAD''" by (auto simp: finish_def split: if_splits)
  with u(5) c7 have ce: "c = chunk3" "e = enc3" by (simp_all add: finish_def)
  note en = charset_step_encoding [OF u(1)]
  from length_step_chunk [OF u(2)] en ce show ?thesis by blast
qed

lemma send_throws:
  assumes "dispatch fw val r = Inr (chunk, r1)" and "send fw req val r = Inl e"
  shows "\<exists>s ct. chunk = CString s \<and> get_header r1 ''content-type'' = Some ct \<and>
           ct \<noteq> [] \<and> content_type_charset fw ct ''utf-8'' = None"
proof -
  have dn: "chunk \<noteq> CNull" using assms(1)
    by (cases "(fw, val, r)" rule: dispatch.cases) auto
  show ?thesis
  proof (cases "charset_step fw chunk r1")
    case (Inl x)
    then show ?thesis
      by (auto simp: charset_step_def setCharset_def split: chunk.splits option.splits sum.splits if_splits)
  next
    case (Inr p)
    obtain enc r2 where p: "p = (enc, r2)" by (cases p)
    from dn have "\<exists>q. length_step fw (generateETag fw r2) chunk enc r2 = Inr q"
      by (cases chunk) (auto simp: length_step_def Let_def)
    with assms Inr p show ?thesis
      by (auto simp: send_def Let_def split: prod.splits)
  qed
qed


lemma send_not_json:
  assumes "send fw req val r = Inr (t, r')" and "\<forall>v. t \<noteq> Json v"
  shows "\<exists>chunk r1. dispatch fw val r = Inr (chunk, r1)"
proof (cases "dispatch fw val r")
  case (Inl v)
  with assms(1) have "t = Json v" by (simp add: send_def)
  with assms(2) show ?thesis by simp
next
  case (Inr p)
  then show ?thesis by (cases p) simp
qed

text \<open>
  C5. The steps of \<^verbatim>\<open>send\<close>, in the order of the claim. A boolean, a number or an object
  that is neither null nor a Buffer is handed to \<^verbatim>\<open>this.json\<close> and the response is left
  as it is. A string gets the Content-Type of \<^verbatim>\<open>html\<close> unless one is set, and a Buffer
  that of \<^verbatim>\<open>bin\<close> (the string's with the charset added); null is sent as the empty
  string, without a default Content-Type. Whenever \<^verbatim>\<open>send\<close> returns other than through
  \<^verbatim>\<open>this.json\<close>: the status is 304 if the request was fresh and unchanged if not; with
  status 204 or 304 the response has no Content-Type, Content-Length or
  Transfer-Encoding and an empty body; with status 205 it has Content-Length 0, no
  Transfer-Encoding and an empty body; a HEAD request ends with no body written and any
  other request ends with a body, which for any other status is the string itself, its
  UTF-8 bytes, or the Buffer that was sent.
\<close>

theorem send_steps:
  "(typeof v = TBoolean \<or> typeof v = TNumber \<or> (typeof v = TObject \<and> v \<noteq> JNull) \<longrightarrow>
      send fw req (Val v) r = Inr (Json v, r)) \<and>
   (send fw req (Val (JString s)) r = Inr (t, r') \<and> status r' \<noteq> 204 \<and> status r' \<noteq> 304 \<longrightarrow>
      (\<exists>ct. setCharset fw (content_type_or r (type_value fw ''html'')) ''utf-8'' = Inr ct \<and>
            headers r' ''content-type'' = Some ct)) \<and>
   (send fw req (Buf b) r = Inr (t, r') \<and> status r' \<noteq> 204 \<and> status r' \<noteq> 304 \<longrightarrow>
      headers r' ''content-type'' = Some (content_type_or r (type_value fw ''bin''))) \<and>
   (\<not> header_unset r ''content-type'' \<longrightarrow>
      send fw req (Val JNull) r = send fw req (Val (JString [])) r) \<and>
   (header_unset r ''content-type'' \<and> send fw req (Val JNull) r = Inr (t, r') \<and>
    status r' \<noteq> 204 \<and> status r' \<noteq> 304 \<longrightarrow>
      headers r' ''content-type'' = headers r ''content-type'') \<and>
   (send fw req (Val JNull) r = Inr (End_with c e, r') \<and>
    status r' \<noteq> 204 \<and> status r' \<noteq> 304 \<and> status r' \<noteq> 205 \<longrightarrow>
      (c = CString [] \<and> e = Some ''utf8'') \<or> (c = CBuffer (utf8_encode fw []) \<and> e = None)) \<and>
   (send fw req val r = Inr (t, r') \<and> (\<forall>v. t \<noteq> Json v) \<longrightarrow>
      (status r' = 304 \<or> status r' = status r) \<and>
      ((\<forall>x. \<not> req_fresh req x) \<longrightarrow> status r' = status r) \<and>
      ((\<forall>x. req_fresh req x) \<longrightarrow> status r' = 304) \<and>
      (status r' = 204 \<or> status r' = 304 \<longrightarrow>
         headers r' ''content-type'' = None \<and> headers r' ''content-length'' = None \<and>
         headers r' ''transfer-encoding'' = None \<and> written t (CString [])) \<and>
      (status r' = 205 \<longrightarrow>
         headers r' ''content-length'' = Some ''0'' \<and>
         headers r' ''transfer-encoding'' = None \<and> written t (CString [])) \<and>
      (req_method req = ''HEAD'' \<longrightarrow> t = End_plain) \<and>
      (req_method req \<noteq> ''HEAD'' \<longrightarrow> (\<exists>c e. t = End_with c e))) \<and>
   (send fw req (Val (JString s)) r = Inr (End_with c e, r') \<and>
    status r' \<noteq> 204 \<and> status r' \<noteq> 304 \<and> status r' \<noteq> 205 \<longrightarrow>
      (c = CString s \<and> e = Some ''utf8'') \<or> (c = CBuffer (utf8_encode fw s) \<and> e = None)) \<and>
   (send fw req (Buf b) r = Inr (End_with c e, r') \<and>
    status r' \<noteq> 204 \<and> status r' \<noteq> 304 \<and> status r' \<noteq> 205 \<longrightarrow>
      c = CBuffer b \<and> e = None)"
proof -
  have j: "typeof v = TBoolean \<or> typeof v = TNumber \<or> (typeof v = TObject \<and> v \<noteq> JNull) \<longrightarrow>
      send fw req (Val v) r = Inr (Json v, r)"
    by (simp add: send_json)
  have a1: "send fw req (Val (JString s)) r = Inr (t, r') \<and> status r' \<noteq> 204 \<and> status r' \<noteq> 304 \<longrightarrow>
      (\<exists>ct. setCharset fw (content_type_or r (type_value fw ''html'')) ''utf-8'' = Inr ct \<and>
            headers r' ''content-type'' = Some ct)"
    using send_string_content_type by blast
  have a2: "send fw req (Buf b) r = Inr (t, r') \<and> status r' \<noteq> 204 \<and> status r' \<noteq> 304 \<longrightarrow>
      headers r' ''content-type'' = Some (content_type_or r (type_value fw ''bin''))"
    using send_buffer_content_type by blast
  have a3: "\<not> header_unset r ''content-type'' \<longrightarrow>
      send fw req (Val JNull) r = send fw req (Val (JString [])) r"
    by (simp add: send_null_as_empty_string)
  have a4: "header_unset r ''content-type'' \<and> send fw req (Val JNull) r = Inr (t, r') \<and>
    status r' \<noteq> 204 \<and> status r' \<noteq> 304 \<longrightarrow>
      headers r' ''content-type'' = headers r ''content-type''"
    using send_null_no_default by blast
  have a5: "send fw req (Val JNull) r = Inr (End_with c e, r') \<and>
    status r' \<noteq> 204 \<and> status r' \<noteq> 304 \<and> status r' \<noteq> 205 \<longrightarrow>
      (c = CString [] \<and> e = Some ''utf8'') \<or> (c = CBuffer (utf8_encode fw []) \<and> e = None)"
  proof (intro impI, elim conjE)
    assume h: "send fw req (Val JNull) r = Inr (End_with c e, r')"
      "status r' \<noteq> 204" "status r' \<noteq> 304" "status r' \<noteq> 205"
    have d: "dispatch fw (Val JNull) r = Inr (CString [], r)" by simp
    from send_body_written [OF d h]
    show "(c = CString [] \<and> e = Some ''utf8'') \<or> (c = CBuffer (utf8_encode fw []) \<and> e = None)"
      by auto
  qed
  have f: "send fw req val r = Inr (t, r') \<and> (\<forall>v. t \<noteq> Json v) \<longrightarrow>
      (status r' = 304 \<or> status r' = status r) \<and>
      ((\<forall>x. \<not> req_fresh req x) \<longrightarrow> status r' = status r) \<and>
      ((\<forall>x. req_fresh req x) \<longrightarrow> status r' = 304) \<and>
      (status r' = 204 \<or> status r' = 304 \<longrightarrow>
         headers r' ''content-type'' = None \<and> headers r' ''content-length'' = None \<and>
         headers r' ''transfer-encoding'' = None \<and> written t (CString [])) \<and>
      (status r' = 205 \<longrightarrow>
         headers r' ''content-length'' = Some ''0'' \<and>
         headers r' ''transfer-encoding'' = None \<and> written t (CString [])) \<and>
      (req_method req = ''HEAD'' \<longrightarrow> t = End_plain) \<and>
      (req_method req \<noteq> ''HEAD'' \<longrightarrow> (\<exists>c e. t = End_with c e))"
  proof (intro impI, elim conjE)
    assume h: "send fw req val r = Inr (t, r')" "\<forall>v. t \<noteq> Json v"
    from send_not_json [OF h] obtain chunk r1 where d: "dispatch fw val r = Inr (chunk, r1)"
      by blast
    from send_status [OF d h(1)] send_strip [OF d h(1)] send_reset [OF d h(1)]
      send_finish [OF d h(1)]
    show "(status r' = 304 \<or> status r' = status r) \<and>
      ((\<forall>x. \<not> req_fresh req x) \<longrightarrow> status r' = status r) \<and>
      ((\<forall>x. req_fresh req x) \<longrightarrow> status r' = 304) \<and>
      (status r' = 204 \<or> status r' = 304 \<longrightarrow>
         headers r' ''content-type'' = None \<and> headers r' ''content-length'' = None \<and>
         headers r' ''transfer-encoding'' = None \<and> written t (CString [])) \<and>
      (status r' = 205 \<longrightarrow>
         headers r' ''content-length'' = Some ''0'' \<and>
         headers r' ''transfer-encoding'' = None \<and> written t (CString [])) \<and>
      (req_method req = ''HEAD'' \<longrightarrow> t = End_plain) \<and>
      (req_method req \<noteq> ''HEAD'' \<longrightarrow> (\<exists>c e. t = End_with c e))"
      by blast
  qed
  have b1: "send fw req (Val (JString s)) r = Inr (End_with c e, r') \<and>
    status r' \<noteq> 204 \<and> status r' \<noteq> 304 \<and> status r' \<noteq> 205 \<longrightarrow>
      (c = CString s \<and> e = Some ''utf8'') \<or> (c = CBuffer (utf8_encode fw s) \<and> e = None)"
  proof (intro impI, elim conjE)
    assume h: "send fw req (Val (JString s)) r = Inr (End_with c e, r')"
      "status r' \<noteq> 204" "status r' \<noteq> 304" "status r' \<noteq> 205"
    have d: "dispatch fw (Val (JString s)) r
               = Inr (CString s, if header_unset r ''content-type'' then set_type fw ''html'' r else r)"
      by simp
    from send_body_written [OF d h]
    show "(c = CString s \<and> e = Some ''utf8'') \<or> (c = CBuffer (utf8_encode fw s) \<and> e = None)"
      by auto
  qed
  have b2: "send fw req (Buf b) r = Inr (End_with c e, r') \<and>
    status r' \<noteq> 204 \<and> status r' \<noteq> 304 \<and> status r' \<noteq> 205 \<longrightarrow>
      c = CBuffer b \<and> e = None"
  proof (intro impI, elim conjE)
    assume h: "send fw req (Buf b) r = Inr (End_with c e, r')"
      "status r' \<noteq> 204" "status r' \<noteq> 304" "status r' \<noteq> 205"
    have d: "dispatch fw (Buf b) r
               = Inr (CBuffer b, if header_unset r ''content-type'' then set_type fw ''bin'' r else r)"
      by simp
    from send_body_written [OF d h] show "c = CBuffer b \<and> e = None" by auto
  qed
  from j a1 a2 a3 a4 a5 f b1 b2 show ?thesis by (intro conjI)
qed

lemmas send_eval =
  send_def charset_step_def setCharset_def generateETag_def length_step_def
  etag_step_def fresh_step_def strip_step_def reset_step_def finish_def
  example_framework_def example_response_def header_unset_def
  get_header_def set_header_def set_type_def removeHeader_def decimal.simps

lemma send_example_string:
  "send example_framework example_get (Val (JString ''hi'')) (example_response 200)
     = Inr (End_with (CString ''hi'') (Some ''utf8''), example_sent)"
  by (simp add: send_eval example_get_def example_sent_def)

lemma send_example_head:
  "send example_framework example_head (Buf [104, 105]) (example_response 200)
     = Inr (End_plain, example_response 304)"
  by (simp add: send_eval example_head_def)

lemma send_example_buffer:
  "send example_framework example_get (Buf [104, 105]) (example_response 200)
     = Inr (End_with (CBuffer [104, 105]) None, example_binary_sent)"
  by (simp add: send_eval example_get_def example_binary_sent_def)

lemma send_example_null:
  "send example_framework example_get (Val JNull) (example_response 200)
     = Inr (End_with (CString []) (Some ''utf8''), example_null_sent)"
  by (simp add: send_eval example_get_def example_null_sent_def)

lemma send_example_reset:
  "send example_framework example_get (Val JNull) example_reset
     = Inr (End_with (CString []) (Some ''utf8''), example_reset_sent)"
  by (simp add: send_eval example_get_def example_reset_def example_reset_sent_def)

theorem send_steps_witness:
  "send example_framework example_get (Val (JObject [(''a'', JNumber (Num 1))])) (example_response 200)
     = Inr (Json (JObject [(''a'', JNumber (Num 1))]), example_response 200) \<and>
   send example_framework example_get (Val (JString ''hi'')) (example_response 200)
     = Inr (End_with (CString ''hi'') (Some ''utf8''), example_sent) \<and>
   headers example_sent ''content-type'' = Some ''text/html; charset=utf-8'' \<and>
   send example_framework example_get (Buf [104, 105]) (example_response 200)
     = Inr (End_with (CBuffer [104, 105]) None, example_binary_sent) \<and>
   headers example_binary_sent ''content-type'' = Some ''application/octet-stream'' \<and>
   send example_framework example_get (Val JNull) (example_response 200)
     = Inr (End_with (CString []) (Some ''utf8''), example_null_sent) \<and>
   headers example_null_sent ''content-type'' = None \<and>
   send example_framework example_head (Buf [104, 105]) (example_response 200)
     = Inr (End_plain, example_response 304) \<and>
   headers (example_response 304) ''content-type'' = None \<and>
   send example_framework example_get (Val JNull) example_reset
     = Inr (End_with (CString []) (Some ''utf8''), example_reset_sent) \<and>
   send example_framework example_get (Val (JString [])) example_reset
     = Inr (End_with (CString []) (Some ''utf8''), example_reset_sent) \<and>
   headers example_reset_sent ''content-length'' = Some ''0''"
  using send_steps [where fw = example_framework and req = example_get
          and r = "example_response 200" and s = "''hi''" and val = "Val (JString ''hi'')"
          and v = "JObject [(''a'', JNumber (Num 1))]" and b = "[]"
          and t = "End_with (CString ''hi'') (Some ''utf8'')" and r' = example_sent
          and c = "CString ''hi''" and e = "Some ''utf8''"]
        send_steps [where fw = example_framework and req = example_get
          and r = "example_response 200" and s = "[]" and val = "Buf [104, 105]"
          and v = "JNull" and b = "[104, 105]"
          and t = "End_with (CBuffer [104, 105]) None" and r' = example_binary_sent
          and c = "CBuffer [104, 105]" and e = "None"]
        send_steps [where fw = example_framework and req = example_get
          and r = "example_response 200" and s = "[]" and val = "Val JNull"
          and v = "JNull" and b = "[]"
          and t = "End_with (CString []) (Some ''utf8'')" and r' = example_null_sent
          and c = "CString []" and e = "Some ''utf8''"]
        send_steps [where fw = example_framework and req = example_head
          and r = "example_response 200" and s = "[]" and val = "Buf [104, 105]"
          and v = "JNull" and b = "[104, 105]"
          and t = "End_plain" and r' = "example_response 304"
          and c = "CUndefined" and e = "None"]
        send_steps [where fw = example_framework and req = example_get
          and r = example_reset and s = "[]" and val = "Val JNull"
          and v = "JNull" and b = "[]"
          and t = "End_with (CString []) (Some ''utf8'')" and r' = example_reset_sent
          and c = "CString []" and e = "Some ''utf8''"]
        send_example_string send_example_buffer send_example_null send_example_head
        send_example_reset
  by (simp add: example_sent_def example_binary_sent_def example_null_sent_def
        example_reset_sent_def example_reset_def example_response_def header_unset_def
        get_header_def)

end
